theory Spec2Isabelle
  imports Main
begin

section \<open>Strings and the platform functions the dashboard calls\<close>

text \<open>
  The dashboard script keeps a table of translation jobs, uploads new files and polls the
  status endpoint. Strings are modelled as \<open>string\<close>, read as the UTF-8 bytes of the
  JavaScript string. On a string of ASCII characters \<open>toLowerCase\<close> maps \<open>A\<close>..\<open>Z\<close> to
  \<open>a\<close>..\<open>z\<close> and keeps the rest. On a string with a character outside ASCII it is the
  Unicode mapping of the engine, which is left unspecified here (\<open>unicode_lower\<close>): nothing
  is proved about its value.
\<close>

definition is_ascii :: "char \<Rightarrow> bool" where
  "is_ascii c = ((of_char c :: nat) < 128)"

definition lower_char :: "char \<Rightarrow> char" where
  "lower_char c =
     (let n = (of_char c :: nat) in if 65 \<le> n \<and> n \<le> 90 then char_of (n + 32) else c)"

definition unicode_lower :: "string \<Rightarrow> string" where
  "unicode_lower = undefined"

definition toLowerCase :: "string \<Rightarrow> string" where
  "toLowerCase s = (if list_all is_ascii s then map lower_char s else unicode_lower s)"

text \<open>
  \<open>encodeURIComponent\<close>: letters, digits and \<open>- _ . ! ~ * ' ( )\<close> are kept, every other
  byte of the UTF-8 encoding becomes \<open>%XX\<close> with upper-case hexadecimal digits.
\<close>

definition hex_digit :: "nat \<Rightarrow> char" where
  "hex_digit d = (if d < 10 then char_of (48 + d) else char_of (55 + d))"

definition uri_unreserved :: "char \<Rightarrow> bool" where
  "uri_unreserved c =
     (let n = (of_char c :: nat) in
        (65 \<le> n \<and> n \<le> 90) \<or> (97 \<le> n \<and> n \<le> 122) \<or> (48 \<le> n \<and> n \<le> 57) \<or>
        c \<in> set ''-_.!~*'()'')"

definition encode_char :: "char \<Rightarrow> string" where
  "encode_char c =
     (if uri_unreserved c then [c]
      else [CHR ''%'', hex_digit ((of_char c :: nat) div 16), hex_digit ((of_char c :: nat) mod 16)])"

definition encodeURIComponent :: "string \<Rightarrow> string" where
  "encodeURIComponent s = concat (map encode_char s)"

text \<open>The decimal digits of a number, as a template literal prints an HTTP status code.\<close>

fun show_nat :: "nat \<Rightarrow> string" where
  "show_nat n =
     (if n < 10 then [char_of (48 + n)]
      else show_nat (n div 10) @ [char_of (48 + n mod 10)])"

declare show_nat.simps [simp del]

text \<open>The two characters outside ASCII that the script writes, as UTF-8 bytes.\<close>

definition ellipsis :: string where
  "ellipsis = [char_of (226 :: nat), char_of (128 :: nat), char_of (166 :: nat)]"

definition em_dash :: string where
  "em_dash = [char_of (226 :: nat), char_of (128 :: nat), char_of (148 :: nat)]"

section \<open>Jobs and the cells of a row\<close>

text \<open>
  A job is the object \<open>{ id, filename, status }\<close>. The id is a string; \<open>filename\<close> and
  \<open>status\<close> are a string or \<open>undefined\<close> (\<open>None\<close>): seeding from a pre-rendered row
  may leave them undefined. The field \<open>id\<close> is named \<open>id_job\<close> here.
\<close>

record job =
  id_job :: string
  filename :: "string option"
  status :: "string option"

text \<open>
  \<open>renderStatusBadge(status = 'pending')\<close>: the default applies to \<open>undefined\<close> only.
\<close>

definition renderStatusBadge :: "string option \<Rightarrow> string" where
  "renderStatusBadge st =
     (let status = (case st of None \<Rightarrow> ''pending'' | Some s \<Rightarrow> s);
          normalized = toLowerCase status
      in ''<span class=\"badge '' @ normalized @ ''\">'' @ status @ ''</span>'')"

definition download_link :: "string \<Rightarrow> string" where
  "download_link i = ''<a href=\"/api/download/'' @ encodeURIComponent i @ ''\" download>Download</a>''"

definition link_disabled :: string where
  "link_disabled = ''<span class=\"link-disabled\">Not ready</span>''"

text \<open>
  \<open>job.status && job.status.toLowerCase() === 'done'\<close>: an undefined or empty status is
  falsy and short-circuits the test.
\<close>

definition renderDownloadLink :: "job \<Rightarrow> string" where
  "renderDownloadLink j =
     (case status j of
        None \<Rightarrow> link_disabled
      | Some s \<Rightarrow> if s \<noteq> [] \<and> toLowerCase s = ''done'' then download_link (id_job j)
                  else link_disabled)"

section \<open>Values of a JSON body and the responses of the server\<close>

text \<open>
  A field of a response body is absent (\<open>Undefined\<close>), \<open>null\<close> or a string, as the
  interface declares \<open>{ job_id: string, filename?: string, status?: string }\<close>.
  \<open>truthy\<close> is JavaScript's truth value: only a non-empty string is truthy here.
\<close>

datatype jsval = Undefined | Null | Str string

fun truthy :: "jsval \<Rightarrow> bool" where
  "truthy (Str s) = (s \<noteq> [])"
| "truthy Undefined = False"
| "truthy Null = False"

text \<open>\<open>a || b\<close> on two fields of a body, and where \<open>b\<close> is a string or undefined.\<close>

definition or_js :: "jsval \<Rightarrow> jsval \<Rightarrow> jsval" where
  "or_js a b = (if truthy a then a else b)"

fun or_jsval :: "jsval \<Rightarrow> string option \<Rightarrow> string option" where
  "or_jsval (Str s) d = (if s \<noteq> [] then Some s else d)"
| "or_jsval Undefined d = d"
| "or_jsval Null d = d"

fun or_str :: "string option \<Rightarrow> string option \<Rightarrow> string option" where
  "or_str (Some s) d = (if s \<noteq> [] then Some s else d)"
| "or_str None d = d"

record payload =
  p_job_id :: jsval
  p_id :: jsval
  p_filename :: jsval
  p_status :: jsval

text \<open>
  \<open>fetch\<close> rejects (\<open>NetworkError\<close>, with the engine's message) or resolves to a response
  with a status code. \<open>response.json()\<close> then yields an object, or the continuation throws
  before it has built a job (\<open>NoObject\<close>, with the engine's message): the body is not JSON,
  or it is \<open>null\<close> and reading a property of it throws. A body that is a number, a string
  or an array has none of the fields read: it is the object with every field absent.
\<close>

datatype body = NoObject string | JsonObj payload

datatype response = NetworkError string | Http nat body

definition ok :: "nat \<Rightarrow> bool" where
  "ok code = (200 \<le> code \<and> code \<le> 299)"

text \<open>
  The exceptions: the three the script throws itself, those of \<open>fetch\<close> and \<open>json\<close> with
  the engine's message, and the two that the document raises while a job is rendered, the
  \<open>SyntaxError\<close> of \<open>querySelector\<close> for a selector it cannot parse and the \<open>TypeError\<close>
  of an assignment to a property of \<open>null\<close>. The wording of the last two is the engine's
  and is left unspecified (\<open>engine_message\<close>).
\<close>

datatype exn = UploadFailed nat | StatusRequestFailed nat | MissingJobId | Platform string
  | SyntaxError string | TypeError string

definition engine_message :: "exn \<Rightarrow> string" where
  "engine_message = undefined"

fun message :: "exn \<Rightarrow> string" where
  "message (UploadFailed code) = ''Upload failed ('' @ show_nat code @ '')''"
| "message (StatusRequestFailed code) = ''Status request failed ('' @ show_nat code @ '')''"
| "message MissingJobId = ''Missing job id in response''"
| "message (Platform m) = m"
| "message (SyntaxError sel) = engine_message (SyntaxError sel)"
| "message (TypeError p) = engine_message (TypeError p)"

section \<open>The job table in the document\<close>

text \<open>
  The children of \<open>#jobs-body\<close>, in document order: the placeholder \<open>.empty-row\<close> or a
  row carrying \<open>data-job-id\<close>. A row may lack any of its cells (\<open>None\<close>), as a row that
  the server rendered may. \<open>cell_name\<close> is the text content of \<open>.job-name\<close>;
  \<open>cell_id\<close>, \<open>cell_status\<close> and \<open>cell_download\<close> are the markup assigned to the
  cells. The rows of this table are the only elements with the attribute, and the cells of
  a row are the only elements in it with the classes \<open>job-name\<close>, \<open>job-status\<close> and
  \<open>job-download\<close>.
\<close>

record row =
  data_job_id :: string
  cell_id :: "string option"
  cell_name :: "string option"
  cell_status :: "string option"
  cell_download :: "string option"

datatype tr = EmptyRow | JobRow row

text \<open>The first row whose \<open>data-job-id\<close> is \<open>i\<close>, and the table with that row changed.\<close>

fun find_row :: "string \<Rightarrow> tr list \<Rightarrow> row option" where
  "find_row i [] = None"
| "find_row i (EmptyRow # ts) = find_row i ts"
| "find_row i (JobRow r # ts) = (if data_job_id r = i then Some r else find_row i ts)"

fun update_row :: "string \<Rightarrow> (row \<Rightarrow> row) \<Rightarrow> tr list \<Rightarrow> tr list" where
  "update_row i f [] = []"
| "update_row i f (EmptyRow # ts) = EmptyRow # update_row i f ts"
| "update_row i f (JobRow r # ts) =
     (if data_job_id r = i then JobRow (f r) # ts else JobRow r # update_row i f ts)"

text \<open>
  The selector \<open>[data-job-id="${job.id}"]\<close> puts the id between double quotes unescaped.
  \<open>css_scan\<close> reads the id as the CSS tokenizer reads the inside of that string: a double
  quote or a line break ends the string early and what follows is no selector
  (\<open>Invalid\<close>: \<open>querySelector\<close> throws); a backslash starts an escape (a line break to
  skip, up to six hexadecimal digits and one white space, or the next character), and then,
  or with a NUL character, the string differs from the id (\<open>Differs\<close>); otherwise the
  string is the id (\<open>Same\<close>). A backslash at the very end escapes the closing quote and
  the string runs to the end of the input. An id made to close the string and go on as
  a selector of its own is read as \<open>Invalid\<close>.
\<close>

datatype selector = Invalid | Differs | Same

datatype css_mode = Normal | Backslash | HexRun nat | SkipLF

definition is_hex :: "char \<Rightarrow> bool" where
  "is_hex c =
     (let n = (of_char c :: nat) in
        (48 \<le> n \<and> n \<le> 57) \<or> (65 \<le> n \<and> n \<le> 70) \<or> (97 \<le> n \<and> n \<le> 102))"

definition is_newline :: "char \<Rightarrow> bool" where
  "is_newline c = ((of_char c :: nat) \<in> {10, 12, 13})"

definition is_space :: "char \<Rightarrow> bool" where
  "is_space c = ((of_char c :: nat) \<in> {9, 10, 12, 13, 32})"

definition after_space :: "char \<Rightarrow> css_mode" where
  "after_space c = (if (of_char c :: nat) = 13 then SkipLF else Normal)"

fun css_scan :: "css_mode \<Rightarrow> bool \<Rightarrow> string \<Rightarrow> selector" where
  "css_scan Normal d [] = (if d then Differs else Same)"
| "css_scan Backslash d [] = Differs"
| "css_scan (HexRun n) d [] = Differs"
| "css_scan SkipLF d [] = Differs"
| "css_scan Normal d (c # cs) =
     (if c = CHR 0x22 \<or> is_newline c then Invalid
      else if c = CHR 0x5C then css_scan Backslash True cs
      else if (of_char c :: nat) = 0 then css_scan Normal True cs
      else css_scan Normal d cs)"
| "css_scan Backslash d (c # cs) =
     (if is_newline c then css_scan (after_space c) True cs
      else if is_hex c then css_scan (HexRun 1) True cs
      else css_scan Normal True cs)"
| "css_scan (HexRun n) d (c # cs) =
     (if is_hex c \<and> n < 6 then css_scan (HexRun (Suc n)) True cs
      else if is_space c then css_scan (after_space c) True cs
      else if c = CHR 0x22 then Invalid
      else if c = CHR 0x5C then css_scan Backslash True cs
      else css_scan Normal True cs)"
| "css_scan SkipLF d (c # cs) =
     (if (of_char c :: nat) = 10 then css_scan Normal True cs
      else if c = CHR 0x22 \<or> is_newline c then Invalid
      else if c = CHR 0x5C then css_scan Backslash True cs
      else css_scan Normal True cs)"

text \<open>
  \<open>document.querySelector\<close> with that selector: it throws, or it yields the first row
  carrying the string of the selector. Where the string differs from the id, the row of the
  job is not among them; whether a row of another job then carries that string is not
  looked at, and no row is found.
\<close>

definition job_selector :: "string \<Rightarrow> string" where
  "job_selector i = ''[data-job-id=\"'' @ i @ ''\"]''"

definition querySelector :: "string \<Rightarrow> tr list \<Rightarrow> exn + row option" where
  "querySelector i ts =
     (case css_scan Normal False i of
        Invalid \<Rightarrow> Inl (SyntaxError (job_selector i))
      | Differs \<Rightarrow> Inr None
      | Same \<Rightarrow> Inr (find_row i ts))"

text \<open>
  The row that \<open>renderJob\<close> creates: the attribute is set to the id, and the four cells
  come from markup that has the id in it unescaped. With no \<open><\<close> in the id the markup is
  the four cells. With a \<open><\<close> the id may open a tag or a comment that takes the cells
  after it; what cells the row then has is left unspecified (\<open>row_markup\<close>).
\<close>

definition row_markup :: "string \<Rightarrow> row" where
  "row_markup = undefined"

definition new_row :: "job \<Rightarrow> row" where
  "new_row j =
     (if CHR ''<'' \<in> set (id_job j) then (row_markup (id_job j))\<lparr>data_job_id := id_job j\<rparr>
      else \<lparr>data_job_id = id_job j, cell_id = Some (id_job j), cell_name = Some [],
            cell_status = Some [], cell_download = Some []\<rparr>)"

text \<open>
  The three assignments to the cells of a row, in the order of the script. The first cell
  that is missing makes its assignment throw, after the cells before it are written.
  \<open>Inl (e, r)\<close> is the throw of \<open>e\<close> that leaves the row as \<open>r\<close>; \<open>state_after\<close> is
  what a run leaves, thrown or not.
\<close>

definition state_after :: "(exn \<times> 'a) + 'a \<Rightarrow> 'a" where
  "state_after r = (case r of Inl (e, x) \<Rightarrow> x | Inr x \<Rightarrow> x)"

definition fill_cells :: "job \<Rightarrow> row \<Rightarrow> (exn \<times> row) + row" where
  "fill_cells j r =
     (case cell_name r of
        None \<Rightarrow> Inl (TypeError ''textContent'', r)
      | Some _ \<Rightarrow>
          let r1 = r\<lparr>cell_name :=
                     Some (case or_str (filename j) None of Some n \<Rightarrow> n | None \<Rightarrow> em_dash)\<rparr>
          in (case cell_status r1 of
                None \<Rightarrow> Inl (TypeError ''innerHTML'', r1)
              | Some _ \<Rightarrow>
                  let r2 = r1\<lparr>cell_status := Some (renderStatusBadge (status j))\<rparr>
                  in (case cell_download r2 of
                        None \<Rightarrow> Inl (TypeError ''innerHTML'', r2)
                      | Some _ \<Rightarrow> Inr (r2\<lparr>cell_download := Some (renderDownloadLink j)\<rparr>))))"

text \<open>
  \<open>renderJob\<close>: find the row, remove the placeholder, create and prepend the row if none
  was found, fill the cells. \<open>Inl (e, ts)\<close> is the throw of \<open>e\<close> that leaves the table
  as \<open>ts\<close>: unchanged when the selector is refused, without the placeholder and with the
  cells written so far when a cell is missing.
\<close>

definition renderJob :: "job \<Rightarrow> tr list \<Rightarrow> (exn \<times> tr list) + tr list" where
  "renderJob j ts =
     (case querySelector (id_job j) ts of
        Inl e \<Rightarrow> Inl (e, ts)
      | Inr found \<Rightarrow>
          let ts1 = remove1 EmptyRow ts;
              ts2 = (case found of None \<Rightarrow> JobRow (new_row j) # ts1 | Some r \<Rightarrow> ts1);
              r = (case found of None \<Rightarrow> new_row j | Some r \<Rightarrow> r)
          in (case fill_cells j r of
                Inl (e, r') \<Rightarrow> Inl (e, update_row (id_job j) (\<lambda>_. r') ts2)
              | Inr r' \<Rightarrow> Inr (update_row (id_job j) (\<lambda>_. r') ts2)))"

section \<open>The state of the page\<close>

text \<open>
  \<open>jobs\<close> is the \<open>Map\<close> from job id to job, in insertion order. \<open>timers\<close> are the interval
  timers of the window, each with its handle and delay; the script never clears one, and
  handles are numbered from 1. \<open>pollerId\<close> is \<open>null\<close> (\<open>None\<close>) or a handle. The elements
  \<open>#upload-status\<close> and \<open>#jobs-body\<close> are used without a test and are taken to exist;
  \<open>#upload-form\<close>, its submit button and \<open>#polling-indicator\<close> are tested and may be
  missing. \<open>form_file\<close> is the name of the \<open>File\<close> that \<open>FormData\<close> holds under \<open>file\<close>.
\<close>

record form =
  form_file :: "string option"
  submit_disabled :: "bool option"

datatype log_entry = ErrorLogged exn | PollFailureLogged exn

record page =
  jobs :: "(string \<times> job) list"
  pollerId :: "nat option"
  timers :: "(nat \<times> nat) list"
  rows :: "tr list"
  uploadStatus :: string
  pollingIndicator :: "string option"
  uploadForm :: "form option"
  console :: "log_entry list"

text \<open>\<open>Map.prototype.set\<close>: an existing key keeps its place, a new key goes last.\<close>

fun jobs_set :: "string \<Rightarrow> job \<Rightarrow> (string \<times> job) list \<Rightarrow> (string \<times> job) list" where
  "jobs_set k v [] = [(k, v)]"
| "jobs_set k v (p # ps) = (if fst p = k then (k, v) # ps else p # jobs_set k v ps)"

definition POLL_INTERVAL_MS :: nat where
  "POLL_INTERVAL_MS = 5000"

definition setInterval :: "nat \<Rightarrow> page \<Rightarrow> nat \<times> page" where
  "setInterval delay st =
     (let h = Suc (length (timers st)) in (h, st\<lparr>timers := timers st @ [(h, delay)]\<rparr>))"

definition startPolling :: "page \<Rightarrow> page" where
  "startPolling st =
     (if pollerId st \<noteq> None \<or> jobs st = [] then st
      else (case setInterval POLL_INTERVAL_MS st of (h, st') \<Rightarrow> st'\<lparr>pollerId := Some h\<rparr>))"

section \<open>Polling\<close>

definition status_url :: "string \<Rightarrow> string" where
  "status_url i = ''/api/status/'' @ encodeURIComponent i"

definition set_indicator :: "string \<Rightarrow> page \<Rightarrow> page" where
  "set_indicator t st = st\<lparr>pollingIndicator := map_option (\<lambda>_. t) (pollingIndicator st)\<rparr>"

text \<open>
  The object \<open>updated\<close> that a status response gives for the job \<open>j\<close> that the tick
  captured when it began, and the body of the \<open>try\<close> of one status request, from the
  moment its response arrives. \<open>Inl (e, st')\<close> is the throw of \<open>e\<close> that leaves the page
  as \<open>st'\<close>: \<open>renderJob\<close> throws after \<open>jobs.set\<close> has written the store.
\<close>

definition updated :: "job \<Rightarrow> payload \<Rightarrow> job" where
  "updated j pl = \<lparr>id_job = id_job j,
                    filename = or_jsval (p_filename pl) (filename j),
                    status = or_jsval (p_status pl) (status j)\<rparr>"

definition poll_try :: "job \<Rightarrow> response \<Rightarrow> page \<Rightarrow> (exn \<times> page) + page" where
  "poll_try j res st =
     (case res of
        NetworkError m \<Rightarrow> Inl (Platform m, st)
      | Http code b \<Rightarrow>
          if \<not> ok code then Inl (StatusRequestFailed code, st)
          else (case b of
                  NoObject m \<Rightarrow> Inl (Platform m, st)
                | JsonObj pl \<Rightarrow>
                    let st1 = st\<lparr>jobs := jobs_set (id_job j) (updated j pl) (jobs st)\<rparr>
                    in (case renderJob (updated j pl) (rows st1) of
                          Inl (e, ts) \<Rightarrow> Inl (e, st1\<lparr>rows := ts\<rparr>)
                        | Inr ts \<Rightarrow> Inr (st1\<lparr>rows := ts\<rparr>))))"

definition poll_job :: "job \<Rightarrow> response \<Rightarrow> page \<Rightarrow> page" where
  "poll_job j res st =
     (case poll_try j res st of
        Inr st' \<Rightarrow> st'
      | Inl (e, st') \<Rightarrow> st'\<lparr>console := console st' @ [PollFailureLogged e]\<rparr>)"

text \<open>
  One tick. \<open>fetch\<close> gives the outcome of the request to a URL. The jobs are those in the
  store when the tick starts; \<open>poll_settle\<close> runs their continuations in the order given.
\<close>

definition poll_settle :: "(string \<Rightarrow> response) \<Rightarrow> job list \<Rightarrow> page \<Rightarrow> page" where
  "poll_settle fetch js st = fold (\<lambda>j. poll_job j (fetch (status_url (id_job j)))) js st"

definition pollAllJobs :: "(string \<Rightarrow> response) \<Rightarrow> page \<Rightarrow> page" where
  "pollAllJobs fetch st =
     (if jobs st = [] then st
      else set_indicator (''Auto-refreshing'' @ ellipsis)
             (poll_settle fetch (map snd (jobs st))
                (set_indicator (''Refreshing'' @ ellipsis) st)))"

section \<open>Uploading\<close>

definition set_submit :: "bool \<Rightarrow> page \<Rightarrow> page" where
  "set_submit d st =
     st\<lparr>uploadForm :=
          map_option (\<lambda>f. f\<lparr>submit_disabled := map_option (\<lambda>_. d) (submit_disabled f)\<rparr>)
            (uploadForm st)\<rparr>"

definition form_reset :: "page \<Rightarrow> page" where
  "form_reset st =
     st\<lparr>uploadForm :=
          map_option (\<lambda>f. f\<lparr>form_file := map_option (\<lambda>_. []) (form_file f)\<rparr>) (uploadForm st)\<rparr>"

text \<open>
  The object \<open>job\<close> built from an upload response whose id is \<open>i\<close>, and the body of the
  \<open>try\<close> of the upload, from the moment the response arrives; \<open>file\<close> is the name that
  \<open>FormData\<close> captured at submission. \<open>Inl (e, st')\<close> is the throw of \<open>e\<close> that leaves
  the page as \<open>st'\<close>: when \<open>renderJob\<close> throws, the job is in the store already and
  \<open>startPolling\<close> is not reached.
\<close>

definition new_job :: "string \<Rightarrow> string option \<Rightarrow> payload \<Rightarrow> job" where
  "new_job i file pl = \<lparr>id_job = i,
                         filename = or_jsval (p_filename pl) (or_str file (Some ''PDF'')),
                         status = or_jsval (p_status pl) (Some ''pending'')\<rparr>"

definition upload_try :: "string option \<Rightarrow> response \<Rightarrow> page \<Rightarrow> (exn \<times> page) + page" where
  "upload_try file res st =
     (case res of
        NetworkError m \<Rightarrow> Inl (Platform m, st)
      | Http code b \<Rightarrow>
          if \<not> ok code then Inl (UploadFailed code, st)
          else (case b of
                  NoObject m \<Rightarrow> Inl (Platform m, st)
                | JsonObj pl \<Rightarrow>
                    (case or_js (p_job_id pl) (p_id pl) of
                       Str i \<Rightarrow>
                         if i = [] then Inl (MissingJobId, st)
                         else
                           let j = new_job i file pl;
                               st1 = st\<lparr>jobs := jobs_set (id_job j) j (jobs st)\<rparr>
                           in (case renderJob j (rows st1) of
                                 Inl (e, ts) \<Rightarrow> Inl (e, st1\<lparr>rows := ts\<rparr>)
                               | Inr ts \<Rightarrow>
                                   let st2 = st1\<lparr>rows := ts\<rparr>;
                                       st3 = startPolling st2;
                                       st4 = st3\<lparr>uploadStatus := ''Upload successful! Job created.''\<rparr>
                                   in Inr (form_reset st4))
                     | Undefined \<Rightarrow> Inl (MissingJobId, st)
                     | Null \<Rightarrow> Inl (MissingJobId, st))))"

definition upload_begin :: "page \<Rightarrow> page" where
  "upload_begin st = (set_submit True st)\<lparr>uploadStatus := ''Uploading'' @ ellipsis\<rparr>"

definition upload_resume :: "string option \<Rightarrow> response \<Rightarrow> page \<Rightarrow> page" where
  "upload_resume file res st =
     set_submit False
       (case upload_try file res st of
          Inr st' \<Rightarrow> st'
        | Inl (e, st') \<Rightarrow> st'\<lparr>console := console st' @ [ErrorLogged e],
                             uploadStatus := ''Error: '' @ message e\<rparr>)"

definition handleUpload :: "response \<Rightarrow> page \<Rightarrow> page" where
  "handleUpload res st =
     (case uploadForm st of
        None \<Rightarrow> st
      | Some f \<Rightarrow> upload_resume (form_file f) res (upload_begin st))"

section \<open>Loading the page\<close>

text \<open>
  \<open>seedExistingJobs\<close> reads the pre-rendered rows: \<open>name_text\<close> and \<open>status_text\<close> give
  the trimmed text content of the name and status cell of a row that has the cell; where
  the cell is missing the field is undefined.
\<close>

fun seed_rows :: "(row \<Rightarrow> string option) \<Rightarrow> (row \<Rightarrow> string option) \<Rightarrow> tr list \<Rightarrow>
    (string \<times> job) list \<Rightarrow> (string \<times> job) list" where
  "seed_rows name_text status_text [] js = js"
| "seed_rows name_text status_text (EmptyRow # ts) js = seed_rows name_text status_text ts js"
| "seed_rows name_text status_text (JobRow r # ts) js =
     seed_rows name_text status_text ts
       (if data_job_id r \<noteq> []
        then jobs_set (data_job_id r)
               \<lparr>id_job = data_job_id r,
                filename = (if cell_name r = None then None else name_text r),
                status = (if cell_status r = None then None else status_text r)\<rparr> js
        else js)"

definition seedExistingJobs :: "(row \<Rightarrow> string option) \<Rightarrow> (row \<Rightarrow> string option) \<Rightarrow> page \<Rightarrow> page" where
  "seedExistingJobs name_text status_text st =
     (let st' = st\<lparr>jobs := seed_rows name_text status_text (rows st) (jobs st)\<rparr>
      in if jobs st' \<noteq> [] then startPolling st' else st')"

text \<open>
  The script as it is loaded into a document with the given table, form and indicator:
  the store is empty, no timer runs, then the rows are seeded.
\<close>

definition load_page :: "(row \<Rightarrow> string option) \<Rightarrow> (row \<Rightarrow> string option) \<Rightarrow> tr list \<Rightarrow>
    string \<Rightarrow> string option \<Rightarrow> form option \<Rightarrow> page" where
  "load_page name_text status_text ts us ind f =
     seedExistingJobs name_text status_text
       \<lparr>jobs = [], pollerId = None, timers = [], rows = ts, uploadStatus = us,
        pollingIndicator = ind, uploadForm = f, console = []\<rparr>"

text \<open>
  What can happen after loading. \<open>fetch\<close> and the handlers are asynchronous: a handler
  runs up to its \<open>await\<close>, and its continuation runs when the response arrives, with other
  handlers in between. \<open>Upload\<close> and \<open>Tick\<close> are the handlers run without interruption.
\<close>

datatype event =
    Upload response
  | UploadBegins
  | UploadResumes "string option" response
  | Tick "string \<Rightarrow> response"
  | TickBegins
  | PollSettles job response
  | TickEnds

fun run :: "event \<Rightarrow> page \<Rightarrow> page" where
  "run (Upload res) st = handleUpload res st"
| "run UploadBegins st = (case uploadForm st of None \<Rightarrow> st | Some f \<Rightarrow> upload_begin st)"
| "run (UploadResumes file res) st = upload_resume file res st"
| "run (Tick fetch) st = pollAllJobs fetch st"
| "run TickBegins st = (if jobs st = [] then st else set_indicator (''Refreshing'' @ ellipsis) st)"
| "run (PollSettles j res) st = poll_job j res st"
| "run TickEnds st = set_indicator (''Auto-refreshing'' @ ellipsis) st"

definition run_all :: "event list \<Rightarrow> page \<Rightarrow> page" where
  "run_all evs st = fold run evs st"

section \<open>Properties of states and responses\<close>

text \<open>
  The representation of the \<open>Map\<close>: no key twice, and (as the script's comment
  \<open>jobId -> { id, filename, status }\<close> says) each job stored under its own id.
\<close>

definition jobs_ok :: "(string \<times> job) list \<Rightarrow> bool" where
  "jobs_ok xs = (distinct (map fst xs) \<and> list_all (\<lambda>p. id_job (snd p) = fst p) xs)"

text \<open>The timer that \<open>pollerId\<close> names is the only one, and it has the polling delay.\<close>

definition timer_ok :: "page \<Rightarrow> bool" where
  "timer_ok st =
     (timers st = (case pollerId st of None \<Rightarrow> [] | Some h \<Rightarrow> [(h, POLL_INTERVAL_MS)]))"

text \<open>
  The responses on which the continuation of a status request throws before it writes
  anything.
\<close>

fun poll_fails :: "response \<Rightarrow> bool" where
  "poll_fails (NetworkError m) = True"
| "poll_fails (Http code (NoObject m)) = True"
| "poll_fails (Http code (JsonObj pl)) = (\<not> ok code)"

text \<open>
  The tables on which \<open>renderJob\<close> is known to fill the row of the id \<open>i\<close>: the
  selector is accepted and its string is the id, and the row it finds has the three cells
  that are assigned, or there is no such row and the id has no \<open><\<close> in it.
\<close>

definition has_cells :: "row \<Rightarrow> bool" where
  "has_cells r = (cell_name r \<noteq> None \<and> cell_status r \<noteq> None \<and> cell_download r \<noteq> None)"

definition renders :: "string \<Rightarrow> tr list \<Rightarrow> bool" where
  "renders i ts =
     (css_scan Normal False i = Same \<and>
      (case find_row i ts of None \<Rightarrow> CHR ''<'' \<notin> set i | Some r \<Rightarrow> has_cells r))"

text \<open>
  A row with the three cells written for a job, and the rows that show a job: the name (or
  a dash), the badge of its status and its download cell.
\<close>

definition filled :: "job \<Rightarrow> row \<Rightarrow> row" where
  "filled j r =
     r\<lparr>cell_name := Some (case or_str (filename j) None of Some n \<Rightarrow> n | None \<Rightarrow> em_dash),
       cell_status := Some (renderStatusBadge (status j)),
       cell_download := Some (renderDownloadLink j)\<rparr>"

definition row_shows :: "job \<Rightarrow> row \<Rightarrow> bool" where
  "row_shows j r =
     (data_job_id r = id_job j \<and>
      cell_name r = Some (case or_str (filename j) None of Some n \<Rightarrow> n | None \<Rightarrow> em_dash) \<and>
      cell_status r = Some (renderStatusBadge (status j)) \<and>
      cell_download r = Some (renderDownloadLink j))"

section \<open>What the document makes of the markup of a badge\<close>

text \<open>
  The badge is assigned to \<open>innerHTML\<close>, so the document parses it. \<open>tokenize\<close> is the
  HTML tokenizer on the markup that is covered here: text, start tags with attributes of
  the form \<open>name="value"\<close> separated by one space, and end tags. It gives \<open>None\<close> on
  anything else: a character reference (\<open>&\<close>), a NUL or carriage return, a \<open><\<close> that
  does not start such a tag, an attribute given twice, or markup that ends inside a tag.
  Between double quotes every character but \<open>"\<close> belongs to the attribute value, also
  \<open><\<close> and \<open>>\<close>. Tag and attribute names are lowercased.
\<close>

datatype token = Character char | StartTag string "(string \<times> string) list" | EndTag string

datatype html_state =
    Data
  | TagOpen
  | EndTagOpen
  | TagName bool string
  | BeforeAttrName string "(string \<times> string) list"
  | AttrName string "(string \<times> string) list" string
  | BeforeAttrValue string "(string \<times> string) list" string
  | AttrValue string "(string \<times> string) list" string string
  | AfterAttrValue string "(string \<times> string) list"

definition is_alpha :: "char \<Rightarrow> bool" where
  "is_alpha c =
     (let n = (of_char c :: nat) in (65 \<le> n \<and> n \<le> 90) \<or> (97 \<le> n \<and> n \<le> 122))"

definition is_digit :: "char \<Rightarrow> bool" where
  "is_digit c = (let n = (of_char c :: nat) in 48 \<le> n \<and> n \<le> 57)"

definition unparsed :: "char \<Rightarrow> bool" where
  "unparsed c = (c = CHR ''&'' \<or> (of_char c :: nat) = 0 \<or> (of_char c :: nat) = 13)"

definition emit :: "token \<Rightarrow> token list option \<Rightarrow> token list option" where
  "emit t r = map_option ((#) t) r"

fun tokenize :: "html_state \<Rightarrow> string \<Rightarrow> token list option" where
  "tokenize Data [] = Some []"
| "tokenize Data (c # cs) =
     (if c = CHR ''<'' then tokenize TagOpen cs
      else if unparsed c then None
      else emit (Character c) (tokenize Data cs))"
| "tokenize TagOpen (c # cs) =
     (if c = CHR ''/'' then tokenize EndTagOpen cs
      else if is_alpha c then tokenize (TagName False [lower_char c]) cs
      else None)"
| "tokenize EndTagOpen (c # cs) =
     (if is_alpha c then tokenize (TagName True [lower_char c]) cs else None)"
| "tokenize (TagName e n) (c # cs) =
     (if c = CHR ''>'' then emit (if e then EndTag n else StartTag n []) (tokenize Data cs)
      else if c = CHR '' '' \<and> \<not> e then tokenize (BeforeAttrName n []) cs
      else if is_alpha c \<or> is_digit c then tokenize (TagName e (n @ [lower_char c])) cs
      else None)"
| "tokenize (BeforeAttrName n as) (c # cs) =
     (if is_alpha c then tokenize (AttrName n as [lower_char c]) cs else None)"
| "tokenize (AttrName n as a) (c # cs) =
     (if c = CHR ''='' then
        (if a \<in> fst ` set as then None else tokenize (BeforeAttrValue n as a) cs)
      else if is_alpha c \<or> c = CHR ''-'' then tokenize (AttrName n as (a @ [lower_char c])) cs
      else None)"
| "tokenize (BeforeAttrValue n as a) (c # cs) =
     (if c = CHR 0x22 then tokenize (AttrValue n as a []) cs else None)"
| "tokenize (AttrValue n as a v) (c # cs) =
     (if c = CHR 0x22 then tokenize (AfterAttrValue n (as @ [(a, v)])) cs
      else if unparsed c then None
      else tokenize (AttrValue n as a (v @ [c])) cs)"
| "tokenize (AfterAttrValue n as) (c # cs) =
     (if c = CHR ''>'' then emit (StartTag n as) (tokenize Data cs)
      else if c = CHR '' '' then tokenize (BeforeAttrName n as) cs
      else None)"
| "tokenize s [] = None"

text \<open>
  The text content of an element whose start tag has been read, with \<open>d\<close> elements open
  inside it: the characters up to its end tag, those of the elements inside included.
  Only \<open>span\<close> elements are covered; any other tag gives \<open>None\<close>.
\<close>

fun span_text :: "nat \<Rightarrow> token list \<Rightarrow> string option" where
  "span_text d [] = Some []"
| "span_text d (Character c # ts) = map_option ((#) c) (span_text d ts)"
| "span_text d (StartTag n as # ts) = (if n = ''span'' then span_text (Suc d) ts else None)"
| "span_text 0 (EndTag n # ts) = (if n = ''span'' then Some [] else None)"
| "span_text (Suc d) (EndTag n # ts) = (if n = ''span'' then span_text d ts else None)"

text \<open>
  The badge that the document shows for a markup: the \<open>class\<close> attribute and the text
  content of the \<open>span\<close> element the markup begins with.
\<close>

record badge =
  badge_class :: string
  badge_text :: string

definition parse_badge :: "string \<Rightarrow> badge option" where
  "parse_badge m =
     (case tokenize Data m of
        Some (StartTag n as # ts) \<Rightarrow>
          (if n = ''span'' then
             (case (map_of as ''class'', span_text 0 ts) of
                (Some c, Some t) \<Rightarrow> Some \<lparr>badge_class = c, badge_text = t\<rparr>
              | _ \<Rightarrow> None)
           else None)
      | _ \<Rightarrow> None)"

text \<open>
  The characters that the tokenizer takes as they are in text and between double quotes.
\<close>

definition plain_char :: "char \<Rightarrow> bool" where
  "plain_char c = (is_ascii c \<and> c \<noteq> CHR ''<'' \<and> c \<noteq> CHR 0x22 \<and> \<not> unparsed c)"

section \<open>A page to run the script on\<close>

text \<open>
  A freshly loaded page with the placeholder row and a form holding \<open>report.pdf\<close>; the
  same page after the server has answered the upload with \<open>{job_id: "42", status: "pending"}\<close>.
\<close>

definition no_text :: "row \<Rightarrow> string option" where
  "no_text r = None"

definition page_0 :: page where
  "page_0 = load_page no_text no_text [EmptyRow] [] (Some [])
              (Some \<lparr>form_file = Some ''report.pdf'', submit_disabled = Some False\<rparr>)"

definition body_42 :: payload where
  "body_42 = \<lparr>p_job_id = Str ''42'', p_id = Undefined, p_filename = Undefined,
              p_status = Str ''pending''\<rparr>"

definition page_42 :: page where
  "page_42 = handleUpload (Http 200 (JsonObj body_42)) page_0"

definition job_42 :: job where
  "job_42 = \<lparr>id_job = ''42'', filename = Some ''report.pdf'', status = Some ''pending''\<rparr>"

definition body_done :: payload where
  "body_done = \<lparr>p_job_id = Undefined, p_id = Undefined, p_filename = Undefined,
                p_status = Str ''done''\<rparr>"

definition fetch_done :: "string \<Rightarrow> response" where
  "fetch_done u = Http 200 (JsonObj body_done)"

definition fetch_500 :: "string \<Rightarrow> response" where
  "fetch_500 u = Http 500 (NoObject [])"

definition fetch_offline :: "string \<Rightarrow> response" where
  "fetch_offline u = NetworkError ''Failed to fetch''"

text \<open>
  The store holding a job while no timer runs yet, as between \<open>jobs.set\<close> and
  \<open>startPolling\<close>; a page whose form has no file chosen, so that \<open>FormData\<close> holds a
  \<open>File\<close> with the empty name; and three more response bodies.
\<close>

definition page_untimed :: page where
  "page_untimed = page_0\<lparr>jobs := [(''42'', job_42)]\<rparr>"

definition page_nofile :: page where
  "page_nofile = load_page no_text no_text [EmptyRow] [] (Some [])
                   (Some \<lparr>form_file = Some [], submit_disabled = Some False\<rparr>)"

definition body_bare :: payload where
  "body_bare = \<lparr>p_job_id = Str ''42'', p_id = Undefined, p_filename = Undefined,
                p_status = Undefined\<rparr>"

definition body_id_only :: payload where
  "body_id_only = \<lparr>p_job_id = Undefined, p_id = Str ''7'', p_filename = Undefined,
                   p_status = Undefined\<rparr>"

definition body_no_id :: payload where
  "body_no_id = \<lparr>p_job_id = Undefined, p_id = Undefined, p_filename = Undefined,
                 p_status = Str ''pending''\<rparr>"






text \<open>An upload response whose id has a double quote in it.\<close>

definition body_quote :: payload where
  "body_quote = \<lparr>p_job_id = Undefined, p_id = Str [CHR ''a'', CHR 0x22, CHR ''b''],
                 p_filename = Undefined, p_status = Undefined\<rparr>"

section \<open>Facts about the store\<close>

lemma map_of_jobs_set: "map_of (jobs_set k v xs) = (map_of xs)(k \<mapsto> v)"
  by (induction xs) (auto simp: fun_eq_iff)

lemma keys_jobs_set_mem: "k \<in> fst ` set xs \<Longrightarrow> map fst (jobs_set k v xs) = map fst xs"
  by (induction xs) auto

lemma set_keys_jobs_set: "fst ` set (jobs_set k v xs) = insert k (fst ` set xs)"
  by (induction xs) auto

lemma distinct_jobs_set: "distinct (map fst xs) \<Longrightarrow> distinct (map fst (jobs_set k v xs))"
proof (induction xs)
  case Nil
  then show ?case by simp
next
  case (Cons p ps)
  have "fst p \<noteq> k \<Longrightarrow> fst p \<notin> fst ` set (jobs_set k v ps)"
    using Cons.prems by (simp add: set_keys_jobs_set)
  with Cons show ?case by auto
qed

lemma filter_key_jobs_set:
  "distinct (map fst xs) \<Longrightarrow> filter (\<lambda>p. fst p = k) (jobs_set k v xs) = [(k, v)]"
proof (induction xs)
  case Nil
  then show ?case by simp
next
  case (Cons p ps)
  have "fst p = k \<Longrightarrow> filter (\<lambda>q. fst q = k) ps = []"
  proof -
    assume "fst p = k"
    with Cons.prems have "k \<notin> fst ` set ps" by simp
    then show ?thesis by (auto simp: filter_empty_conv image_iff)
  qed
  with Cons show ?case by simp
qed

section \<open>Facts about the table\<close>

lemma find_row_remove1: "find_row i (remove1 EmptyRow ts) = find_row i ts"
  by (induction i ts rule: find_row.induct) auto

lemma find_row_update_row:
  assumes "\<And>r. data_job_id (f r) = data_job_id r"
  shows "find_row k (update_row i f ts) = (if k = i then map_option f (find_row i ts) else find_row k ts)"
  using assms by (induction i f ts rule: update_row.induct) auto

lemma find_row_replace_other:
  "k \<noteq> i \<Longrightarrow> data_job_id r' = i \<Longrightarrow> find_row k (update_row i (\<lambda>_. r') ts) = find_row k ts"
  by (induction i "\<lambda>_ :: row. r'" ts rule: update_row.induct) auto

lemma find_row_replace_same:
  "data_job_id r' = i \<Longrightarrow>
     find_row i (update_row i (\<lambda>_. r') ts) = map_option (\<lambda>_. r') (find_row i ts)"
  by (induction i "\<lambda>_ :: row. r'" ts rule: update_row.induct) auto

lemma find_row_data: "find_row i ts = Some r \<Longrightarrow> data_job_id r = i"
  by (induction i ts rule: find_row.induct) (auto split: if_splits)

lemma fill_cells_has_cells: "has_cells r \<Longrightarrow> fill_cells j r = Inr (filled j r)"
  by (auto simp: has_cells_def fill_cells_def filled_def Let_def)

lemma fill_cells_lacks_cells: "\<not> has_cells r \<Longrightarrow> \<exists>p r'. fill_cells j r = Inl (TypeError p, r')"
  by (auto simp: has_cells_def fill_cells_def Let_def split: option.splits)

lemma data_job_id_fill_cells: "data_job_id (state_after (fill_cells j r)) = data_job_id r"
  by (auto simp: fill_cells_def state_after_def Let_def split: option.splits)

lemma has_cells_new_row: "CHR ''<'' \<notin> set (id_job j) \<Longrightarrow> has_cells (new_row j)"
  by (simp add: has_cells_def new_row_def)

lemma data_job_id_new_row: "data_job_id (new_row j) = id_job j"
  by (simp add: new_row_def)

lemma renderJob_invalid:
  "css_scan Normal False (id_job j) = Invalid \<Longrightarrow>
     renderJob j ts = Inl (SyntaxError (job_selector (id_job j)), ts)"
  by (simp add: renderJob_def querySelector_def)

lemma renderJob_valid:
  assumes "css_scan Normal False (id_job j) \<noteq> Invalid"
  shows "renderJob j ts =
     (let found = (if css_scan Normal False (id_job j) = Same then find_row (id_job j) ts else None);
          ts2 = (case found of None \<Rightarrow> JobRow (new_row j) # remove1 EmptyRow ts
                 | Some r \<Rightarrow> remove1 EmptyRow ts);
          r = (case found of None \<Rightarrow> new_row j | Some r \<Rightarrow> r)
      in (case fill_cells j r of
            Inl (e, r') \<Rightarrow> Inl (e, update_row (id_job j) (\<lambda>_. r') ts2)
          | Inr r' \<Rightarrow> Inr (update_row (id_job j) (\<lambda>_. r') ts2)))"
  using assms
  by (cases "css_scan Normal False (id_job j)")
     (simp_all add: renderJob_def querySelector_def Let_def split: sum.splits prod.splits)

lemma find_row_renderJob_other:
  assumes "k \<noteq> id_job j"
  shows "find_row k (state_after (renderJob j ts)) = find_row k ts"
proof (cases "css_scan Normal False (id_job j) = Invalid")
  case True
  then show ?thesis by (simp add: renderJob_invalid state_after_def)
next
  case False
  let ?found = "if css_scan Normal False (id_job j) = Same then find_row (id_job j) ts else None"
  let ?ts2 = "case ?found of None \<Rightarrow> JobRow (new_row j) # remove1 EmptyRow ts
                 | Some r \<Rightarrow> remove1 EmptyRow ts"
  let ?r = "case ?found of None \<Rightarrow> new_row j | Some r \<Rightarrow> r"
  have dr: "data_job_id ?r = id_job j"
    by (auto simp: data_job_id_new_row find_row_data split: option.splits if_splits)
  have ts2: "find_row k ?ts2 = find_row k ts"
    using assms by (auto simp: find_row_remove1 data_job_id_new_row split: option.splits)
  have st: "state_after (renderJob j ts) =
      update_row (id_job j) (\<lambda>_. state_after (fill_cells j ?r)) ?ts2"
    by (simp add: renderJob_valid [OF False] Let_def state_after_def split: sum.splits prod.splits)
  have "data_job_id (state_after (fill_cells j ?r)) = id_job j"
    using dr by (simp add: data_job_id_fill_cells)
  then show ?thesis
    using assms ts2 by (simp add: st find_row_replace_other)
qed

lemma renderJob_renders:
  assumes "renders (id_job j) ts"
  shows "\<exists>ts' r. renderJob j ts = Inr ts' \<and> find_row (id_job j) ts' = Some (filled j r)
           \<and> data_job_id r = id_job j"
proof -
  let ?found = "if css_scan Normal False (id_job j) = Same then find_row (id_job j) ts else None"
  let ?ts2 = "case ?found of None \<Rightarrow> JobRow (new_row j) # remove1 EmptyRow ts
                 | Some r \<Rightarrow> remove1 EmptyRow ts"
  let ?r = "case ?found of None \<Rightarrow> new_row j | Some r \<Rightarrow> r"
  from assms have v: "css_scan Normal False (id_job j) \<noteq> Invalid"
    by (simp add: renders_def)
  have hc: "has_cells ?r"
    using assms by (auto simp: renders_def has_cells_new_row split: option.splits)
  have dr: "data_job_id ?r = id_job j"
    by (auto simp: data_job_id_new_row find_row_data split: option.splits if_splits)
  have fr: "find_row (id_job j) ?ts2 = Some ?r"
    by (auto simp: find_row_remove1 data_job_id_new_row split: option.splits if_splits)
  have df: "data_job_id (filled j ?r) = id_job j"
    using dr by (simp add: filled_def)
  have "renderJob j ts = Inr (update_row (id_job j) (\<lambda>_. filled j ?r) ?ts2)"
    by (simp add: renderJob_valid [OF v] Let_def fill_cells_has_cells [OF hc])
  moreover have "find_row (id_job j) (update_row (id_job j) (\<lambda>_. filled j ?r) ?ts2) = Some (filled j ?r)"
    using fr by (simp add: find_row_replace_same [OF df])
  ultimately show ?thesis using dr by blast
qed

lemma row_shows_filled: "data_job_id r = id_job j \<Longrightarrow> row_shows j (filled j r)"
  by (simp add: row_shows_def filled_def)

section \<open>One settled request\<close>

lemma id_job_updated: "id_job (updated j pl) = id_job j"
  by (simp add: updated_def)

lemma poll_try_fails: "poll_fails res \<Longrightarrow> \<exists>e. poll_try j res st = Inl (e, st)"
  by (cases res rule: poll_fails.cases) (auto simp: poll_try_def)

lemma poll_job_fails:
  "poll_fails res \<Longrightarrow> \<exists>e. poll_job j res st = st\<lparr>console := console st @ [PollFailureLogged e]\<rparr>"
  using poll_try_fails [of res j st] by (auto simp: poll_job_def)

lemma poll_job_cases:
  obtains (fails) e where "poll_fails res"
            "poll_job j res st = st\<lparr>console := console st @ [PollFailureLogged e]\<rparr>"
        | (succeeds) code pl ts where "res = Http code (JsonObj pl)" "ok code"
            "renderJob (updated j pl) (rows st) = Inr ts"
            "poll_job j res st = st\<lparr>jobs := jobs_set (id_job j) (updated j pl) (jobs st),
               rows := ts\<rparr>"
        | (throws) code pl e ts where "res = Http code (JsonObj pl)" "ok code"
            "renderJob (updated j pl) (rows st) = Inl (e, ts)"
            "poll_job j res st = st\<lparr>jobs := jobs_set (id_job j) (updated j pl) (jobs st),
               rows := ts, console := console st @ [PollFailureLogged e]\<rparr>"
proof (cases "poll_fails res")
  case True
  then show ?thesis using poll_job_fails fails by blast
next
  case False
  then obtain code pl where r: "res = Http code (JsonObj pl)" "ok code"
    by (cases res rule: poll_fails.cases) auto
  show ?thesis
  proof (cases "renderJob (updated j pl) (rows st)")
    case (Inl a)
    obtain e ts where a: "a = (e, ts)" by (cases a)
    with Inl r have "poll_job j res st = st\<lparr>jobs := jobs_set (id_job j) (updated j pl) (jobs st),
               rows := ts, console := console st @ [PollFailureLogged e]\<rparr>"
      by (simp add: poll_job_def poll_try_def Let_def)
    with r Inl a show ?thesis using throws by blast
  next
    case (Inr ts)
    with r have "poll_job j res st = st\<lparr>jobs := jobs_set (id_job j) (updated j pl) (jobs st),
               rows := ts\<rparr>"
      by (simp add: poll_job_def poll_try_def Let_def)
    with r Inr show ?thesis using succeeds by blast
  qed
qed

lemma jobs_poll_job:
  "ok code \<Longrightarrow> jobs (poll_job j (Http code (JsonObj pl)) st) =
     jobs_set (id_job j) (updated j pl) (jobs st)"
  by (cases j "Http code (JsonObj pl)" st rule: poll_job_cases) auto

lemma rows_poll_job:
  "ok code \<Longrightarrow> rows (poll_job j (Http code (JsonObj pl)) st) =
     state_after (renderJob (updated j pl) (rows st))"
  by (cases j "Http code (JsonObj pl)" st rule: poll_job_cases) (auto simp: state_after_def)

lemma poll_job_failed_same:
  assumes "poll_fails res"
  shows "jobs (poll_job j res st) = jobs st" and "rows (poll_job j res st) = rows st"
  using poll_job_fails [OF assms, of j st] by auto

lemma poll_job_other:
  assumes "id_job j \<noteq> k"
  shows "map_of (jobs (poll_job j res st)) k = map_of (jobs st) k"
    and "find_row k (rows (poll_job j res st)) = find_row k (rows st)"
proof -
  have "map_of (jobs (poll_job j res st)) k = map_of (jobs st) k
      \<and> find_row k (rows (poll_job j res st)) = find_row k (rows st)"
  proof (cases "poll_fails res")
    case True
    then show ?thesis by (simp add: poll_job_failed_same)
  next
    case False
    then obtain code pl where r: "res = Http code (JsonObj pl)" "ok code"
      by (cases res rule: poll_fails.cases) auto
    have "k \<noteq> id_job (updated j pl)" using assms by (simp add: id_job_updated)
    then have "find_row k (state_after (renderJob (updated j pl) (rows st))) = find_row k (rows st)"
      by (rule find_row_renderJob_other)
    with r assms show ?thesis
      by (simp add: jobs_poll_job rows_poll_job map_of_jobs_set)
  qed
  then show "map_of (jobs (poll_job j res st)) k = map_of (jobs st) k"
    and "find_row k (rows (poll_job j res st)) = find_row k (rows st)" by simp_all
qed


section \<open>A whole tick\<close>

lemma poll_settle_Nil: "poll_settle fetch [] st = st"
  by (simp add: poll_settle_def)

lemma poll_settle_Cons:
  "poll_settle fetch (j # js) st = poll_settle fetch js (poll_job j (fetch (status_url (id_job j))) st)"
  by (simp add: poll_settle_def)


lemma poll_settle_untouched:
  assumes "\<forall>j\<in>set js. id_job j = k \<longrightarrow> poll_fails (fetch (status_url k))"
  shows "map_of (jobs (poll_settle fetch js st)) k = map_of (jobs st) k
       \<and> find_row k (rows (poll_settle fetch js st)) = find_row k (rows st)"
  using assms
proof (induction js arbitrary: st)
  case Nil
  then show ?case by (simp add: poll_settle_Nil)
next
  case (Cons j js)
  let ?st = "poll_job j (fetch (status_url (id_job j))) st"
  have step: "map_of (jobs ?st) k = map_of (jobs st) k \<and> find_row k (rows ?st) = find_row k (rows st)"
  proof (cases "id_job j = k")
    case True
    with Cons.prems have "poll_fails (fetch (status_url (id_job j)))" by simp
    then show ?thesis by (simp add: poll_job_failed_same)
  next
    case False
    then show ?thesis by (simp add: poll_job_other)
  qed
  from Cons.prems have "\<forall>j\<in>set js. id_job j = k \<longrightarrow> poll_fails (fetch (status_url k))" by simp
  from Cons.IH [OF this, of ?st] step show ?case by (simp add: poll_settle_Cons)
qed



section \<open>The representation of the store is kept\<close>

lemma list_all_jobs_set: "P (k, v) \<Longrightarrow> list_all P xs \<Longrightarrow> list_all P (jobs_set k v xs)"
  by (induction xs) auto

lemma jobs_ok_jobs_set: "jobs_ok xs \<Longrightarrow> id_job v = k \<Longrightarrow> jobs_ok (jobs_set k v xs)"
  by (simp add: jobs_ok_def distinct_jobs_set list_all_jobs_set)

lemma jobs_ok_ids: "jobs_ok xs \<Longrightarrow> map id_job (map snd xs) = map fst xs"
  by (induction xs) (auto simp: jobs_ok_def)

lemma jobs_ok_id: "jobs_ok xs \<Longrightarrow> (k, j) \<in> set xs \<Longrightarrow> id_job j = k"
  by (auto simp: jobs_ok_def list_all_iff)

lemma jobs_ok_poll_job: "jobs_ok (jobs st) \<Longrightarrow> jobs_ok (jobs (poll_job j res st))"
  by (cases j res st rule: poll_job_cases) (simp_all add: jobs_ok_jobs_set id_job_updated)

lemma keys_poll_job:
  "id_job j \<in> fst ` set (jobs st) \<Longrightarrow> map fst (jobs (poll_job j res st)) = map fst (jobs st)"
  by (cases j res st rule: poll_job_cases) (simp_all add: keys_jobs_set_mem)

lemma keys_poll_settle:
  "\<forall>j\<in>set js. id_job j \<in> fst ` set (jobs st) \<Longrightarrow>
     map fst (jobs (poll_settle fetch js st)) = map fst (jobs st)"
proof (induction js arbitrary: st)
  case Nil
  then show ?case by (simp add: poll_settle_Nil)
next
  case (Cons j js)
  let ?st = "poll_job j (fetch (status_url (id_job j))) st"
  have k: "map fst (jobs ?st) = map fst (jobs st)"
    using Cons.prems by (simp add: keys_poll_job)
  then have "fst ` set (jobs ?st) = fst ` set (jobs st)"
    by (metis set_map)
  with Cons.prems have "\<forall>j\<in>set js. id_job j \<in> fst ` set (jobs ?st)" by simp
  from Cons.IH [OF this] k show ?case by (simp add: poll_settle_Cons)
qed

lemma jobs_ok_poll_settle: "jobs_ok (jobs st) \<Longrightarrow> jobs_ok (jobs (poll_settle fetch js st))"
  by (induction js arbitrary: st) (simp_all add: poll_settle_Nil poll_settle_Cons jobs_ok_poll_job)

lemma jobs_set_indicator: "jobs (set_indicator t st) = jobs st"
  and rows_set_indicator: "rows (set_indicator t st) = rows st"
  and timers_set_indicator: "timers (set_indicator t st) = timers st"
  and pollerId_set_indicator: "pollerId (set_indicator t st) = pollerId st"
  by (simp_all add: set_indicator_def)

lemma jobs_pollAllJobs:
  "jobs (pollAllJobs fetch st) =
     jobs (poll_settle fetch (map snd (jobs st)) (set_indicator (''Refreshing'' @ ellipsis) st))"
  and rows_pollAllJobs:
  "rows (pollAllJobs fetch st) =
     rows (poll_settle fetch (map snd (jobs st)) (set_indicator (''Refreshing'' @ ellipsis) st))"
  by (simp_all add: pollAllJobs_def jobs_set_indicator rows_set_indicator poll_settle_Nil)

lemma keys_mono_poll_job: "fst ` set (jobs st) \<subseteq> fst ` set (jobs (poll_job j res st))"
  by (cases j res st rule: poll_job_cases) (auto simp: set_keys_jobs_set)

lemma keys_mono_poll_settle: "fst ` set (jobs st) \<subseteq> fst ` set (jobs (poll_settle fetch js st))"
proof (induction js arbitrary: st)
  case Nil
  then show ?case by (simp add: poll_settle_Nil)
next
  case (Cons j js)
  show ?case
    using keys_mono_poll_job [of st j] Cons.IH
    by (simp only: poll_settle_Cons) blast
qed

section \<open>The polling timer\<close>

lemma startPolling_noop: "pollerId st \<noteq> None \<or> jobs st = [] \<Longrightarrow> startPolling st = st"
  by (simp add: startPolling_def)

lemma startPolling_starts:
  "pollerId st = None \<Longrightarrow> jobs st \<noteq> [] \<Longrightarrow>
     startPolling st = st\<lparr>timers := timers st @ [(Suc (length (timers st)), POLL_INTERVAL_MS)],
                          pollerId := Some (Suc (length (timers st)))\<rparr>"
  by (simp add: startPolling_def setInterval_def Let_def)

lemma startPolling_fields:
  "jobs (startPolling st) = jobs st" "rows (startPolling st) = rows st"
  "uploadForm (startPolling st) = uploadForm st" "uploadStatus (startPolling st) = uploadStatus st"
  "console (startPolling st) = console st"
  by (simp_all add: startPolling_def setInterval_def Let_def)

lemma timer_ok_startPolling: "timer_ok st \<Longrightarrow> timer_ok (startPolling st)"
proof (cases "pollerId st \<noteq> None \<or> jobs st = []")
  case True
  assume "timer_ok st"
  then show ?thesis using True by (simp add: startPolling_noop)
next
  case False
  assume "timer_ok st"
  with False have "timers st = []" by (simp add: timer_ok_def)
  with False show ?thesis by (simp add: startPolling_starts timer_ok_def)
qed

lemma timer_ok_poll_job: "timer_ok st \<Longrightarrow> timer_ok (poll_job j res st)"
  by (cases j res st rule: poll_job_cases) (simp_all add: timer_ok_def)

lemma timer_ok_poll_settle: "timer_ok st \<Longrightarrow> timer_ok (poll_settle fetch js st)"
  by (induction js arbitrary: st) (simp_all add: poll_settle_Nil poll_settle_Cons timer_ok_poll_job)

lemma timer_ok_set_indicator: "timer_ok (set_indicator t st) = timer_ok st"
  by (simp add: timer_ok_def set_indicator_def)

lemma timer_ok_pollAllJobs: "timer_ok st \<Longrightarrow> timer_ok (pollAllJobs fetch st)"
  by (simp add: pollAllJobs_def timer_ok_set_indicator timer_ok_poll_settle)

section \<open>The upload handler\<close>

lemma renderJob_exn:
  "renderJob j ts = Inl (e, ts') \<Longrightarrow> (\<exists>s. e = SyntaxError s) \<or> (\<exists>p. e = TypeError p)"
  by (auto simp: renderJob_def querySelector_def fill_cells_def Let_def
      split: selector.splits option.splits sum.splits prod.splits)

lemma upload_try_rejects:
  assumes "\<not> (\<exists>code pl i. res = Http code (JsonObj pl) \<and> ok code
    \<and> or_js (p_job_id pl) (p_id pl) = Str i \<and> i \<noteq> [])"
  shows "\<exists>e. upload_try fl res st = Inl (e, st)"
proof (cases res)
  case (NetworkError m)
  then show ?thesis by (simp add: upload_try_def)
next
  case (Http code b)
  show ?thesis
  proof (cases "ok code")
    case False
    with Http show ?thesis by (simp add: upload_try_def)
  next
    case True
    show ?thesis
    proof (cases b)
      case (NoObject m)
      with Http True show ?thesis by (simp add: upload_try_def)
    next
      case (JsonObj pl)
      show ?thesis
      proof (cases "or_js (p_job_id pl) (p_id pl)")
        case (Str i)
        with assms Http True JsonObj have "i = []" by simp
        with Str Http True JsonObj show ?thesis by (simp add: upload_try_def)
      qed (simp_all add: Http True JsonObj upload_try_def)
    qed
  qed
qed

lemma upload_try_cases:
  obtains (rejects) e where "upload_try fl res st = Inl (e, st)"
  | (creates) code pl i ts where "res = Http code (JsonObj pl)" "ok code"
      "or_js (p_job_id pl) (p_id pl) = Str i" "i \<noteq> []"
      "renderJob (new_job i fl pl) (rows st) = Inr ts"
      "upload_try fl res st =
         Inr (form_reset ((startPolling
                (st\<lparr>jobs := jobs_set i (new_job i fl pl) (jobs st), rows := ts\<rparr>))
              \<lparr>uploadStatus := ''Upload successful! Job created.''\<rparr>))"
  | (throws) code pl i e ts where "res = Http code (JsonObj pl)" "ok code"
      "or_js (p_job_id pl) (p_id pl) = Str i" "i \<noteq> []"
      "renderJob (new_job i fl pl) (rows st) = Inl (e, ts)"
      "upload_try fl res st =
         Inl (e, st\<lparr>jobs := jobs_set i (new_job i fl pl) (jobs st), rows := ts\<rparr>)"
proof (cases "\<exists>code pl i. res = Http code (JsonObj pl) \<and> ok code
    \<and> or_js (p_job_id pl) (p_id pl) = Str i \<and> i \<noteq> []")
  case False
  from upload_try_rejects [OF this] show ?thesis using rejects by blast
next
  case True
  then obtain code pl i where r: "res = Http code (JsonObj pl)" "ok code"
    "or_js (p_job_id pl) (p_id pl) = Str i" "i \<noteq> []" by blast
  show ?thesis
  proof (cases "renderJob (new_job i fl pl) (rows st)")
    case (Inl a)
    obtain e ts where a: "a = (e, ts)" by (cases a)
    with Inl r have "upload_try fl res st =
         Inl (e, st\<lparr>jobs := jobs_set i (new_job i fl pl) (jobs st), rows := ts\<rparr>)"
      by (simp add: upload_try_def Let_def new_job_def)
    with r Inl a show ?thesis using throws by blast
  next
    case (Inr ts)
    with r have "upload_try fl res st =
         Inr (form_reset ((startPolling
                (st\<lparr>jobs := jobs_set i (new_job i fl pl) (jobs st), rows := ts\<rparr>))
              \<lparr>uploadStatus := ''Upload successful! Job created.''\<rparr>))"
      by (simp add: upload_try_def Let_def new_job_def)
    with r Inr show ?thesis using creates by blast
  qed
qed

lemma set_submit_fields:
  "jobs (set_submit d st) = jobs st" "rows (set_submit d st) = rows st"
  "timers (set_submit d st) = timers st" "pollerId (set_submit d st) = pollerId st"
  "uploadStatus (set_submit d st) = uploadStatus st" "console (set_submit d st) = console st"
  by (simp_all add: set_submit_def)

lemma form_reset_fields:
  "jobs (form_reset st) = jobs st" "rows (form_reset st) = rows st"
  "timers (form_reset st) = timers st" "pollerId (form_reset st) = pollerId st"
  "uploadStatus (form_reset st) = uploadStatus st" "console (form_reset st) = console st"
  by (simp_all add: form_reset_def)

lemma submit_after_set_submit:
  "map_option submit_disabled (uploadForm (set_submit d st)) =
     map_option (\<lambda>f. map_option (\<lambda>_. d) (submit_disabled f)) (uploadForm st)"
  by (cases "uploadForm st") (simp_all add: set_submit_def)

lemma upload_begin_fields:
  "jobs (upload_begin st) = jobs st" "rows (upload_begin st) = rows st"
  "timers (upload_begin st) = timers st" "pollerId (upload_begin st) = pollerId st"
  "console (upload_begin st) = console st"
  by (simp_all add: upload_begin_def set_submit_fields)

lemma timer_ok_upload_resume: "timer_ok st \<Longrightarrow> timer_ok (upload_resume fl res st)"
proof (cases fl res st rule: upload_try_cases)
  case (rejects e)
  assume "timer_ok st"
  then show ?thesis using rejects
    by (simp add: upload_resume_def timer_ok_def set_submit_fields)
next
  case (creates code pl i ts)
  let ?st2 = "st\<lparr>jobs := jobs_set i (new_job i fl pl) (jobs st), rows := ts\<rparr>"
  assume "timer_ok st"
  then have "timer_ok ?st2"
    by (simp add: timer_ok_def)
  then have "timer_ok (startPolling ?st2)"
    by (rule timer_ok_startPolling)
  then show ?thesis
    by (simp add: creates(6) upload_resume_def timer_ok_def set_submit_fields form_reset_fields)
next
  case (throws code pl i e ts)
  assume "timer_ok st"
  then show ?thesis
    by (simp add: throws(6) upload_resume_def timer_ok_def set_submit_fields)
qed

lemma timer_ok_upload_begin: "timer_ok (upload_begin st) = timer_ok st"
  by (simp add: upload_begin_def timer_ok_def set_submit_fields)

lemma timer_ok_handleUpload: "timer_ok st \<Longrightarrow> timer_ok (handleUpload res st)"
  by (cases "uploadForm st") (simp_all add: handleUpload_def timer_ok_upload_resume timer_ok_upload_begin)

lemma timer_ok_run: "timer_ok st \<Longrightarrow> timer_ok (run ev st)"
  by (cases ev)
     (simp_all add: timer_ok_handleUpload timer_ok_upload_begin timer_ok_upload_resume
       timer_ok_pollAllJobs timer_ok_set_indicator timer_ok_poll_job split: option.splits)

lemma timer_ok_run_all: "timer_ok st \<Longrightarrow> timer_ok (run_all evs st)"
  unfolding run_all_def by (induction evs arbitrary: st) (simp_all add: timer_ok_run)

lemma timer_ok_load_page: "timer_ok (load_page nt stt ts us ind f)"
proof -
  have "timer_ok \<lparr>jobs = js, pollerId = None, timers = [], rows = ts, uploadStatus = us,
        pollingIndicator = ind, uploadForm = f, console = []\<rparr>" for js
    by (simp add: timer_ok_def)
  then show ?thesis
    by (simp add: load_page_def seedExistingJobs_def Let_def timer_ok_startPolling)
qed

lemma timer_ok_length: "timer_ok st \<Longrightarrow> length (timers st) \<le> 1"
  by (auto simp: timer_ok_def split: option.splits)

lemma upload_try_not_ok: "\<not> ok code \<Longrightarrow> upload_try fl (Http code b) st = Inl (UploadFailed code, st)"
  by (simp add: upload_try_def)

lemma upload_try_missing:
  "ok code \<Longrightarrow> \<not> truthy (p_job_id pl) \<Longrightarrow> \<not> truthy (p_id pl) \<Longrightarrow>
     upload_try fl (Http code (JsonObj pl)) st = Inl (MissingJobId, st)"
  by (cases "p_job_id pl" rule: truthy.cases; cases "p_id pl" rule: truthy.cases)
     (simp_all add: upload_try_def or_js_def)

lemma or_js_truthy:
  "truthy (p_job_id pl) \<or> truthy (p_id pl) \<Longrightarrow>
     \<exists>i. or_js (p_job_id pl) (p_id pl) = Str i \<and> i \<noteq> []"
  by (cases "p_job_id pl" rule: truthy.cases; cases "p_id pl" rule: truthy.cases)
     (simp_all add: or_js_def)

lemma upload_try_missing_iff:
  assumes "ok code"
  shows "(\<exists>s'. upload_try fl (Http code (JsonObj pl)) st = Inl (MissingJobId, s'))
     \<longleftrightarrow> \<not> truthy (p_job_id pl) \<and> \<not> truthy (p_id pl)"
proof (cases "truthy (p_job_id pl) \<or> truthy (p_id pl)")
  case False
  with assms show ?thesis by (auto simp: upload_try_missing)
next
  case True
  from or_js_truthy [OF True] obtain i where i: "or_js (p_job_id pl) (p_id pl) = Str i" "i \<noteq> []"
    by blast
  have "upload_try fl (Http code (JsonObj pl)) st \<noteq> Inl (MissingJobId, s')" for s'
  proof (cases "renderJob (new_job i fl pl) (rows st)")
    case (Inl a)
    obtain e ts where a: "a = (e, ts)" by (cases a)
    with Inl have "e \<noteq> MissingJobId" using renderJob_exn by fastforce
    with Inl a i assms show ?thesis
      by (simp add: upload_try_def Let_def new_job_def)
  next
    case (Inr ts)
    with i assms show ?thesis
      by (simp add: upload_try_def Let_def new_job_def)
  qed
  with True show ?thesis by blast
qed

lemma handleUpload_rejects:
  assumes "uploadForm st = Some f"
    and "upload_try (form_file f) res (upload_begin st) = Inl (e, upload_begin st)"
  shows "handleUpload res st =
           set_submit False ((upload_begin st)\<lparr>console := console st @ [ErrorLogged e],
                                               uploadStatus := ''Error: '' @ message e\<rparr>)"
  using assms by (simp add: handleUpload_def upload_resume_def upload_begin_fields)

lemma jobs_handleUpload:
  assumes "uploadForm st = Some f" and "ok code"
    and "or_js (p_job_id pl) (p_id pl) = Str i" and "i \<noteq> []"
  shows "jobs (handleUpload (Http code (JsonObj pl)) st) =
           jobs_set i (new_job i (form_file f) pl) (jobs st)"
proof (cases "renderJob (new_job i (form_file f) pl) (rows st)")
  case (Inl a)
  obtain e ts where a: "a = (e, ts)" by (cases a)
  with Inl assms show ?thesis
    by (simp add: handleUpload_def upload_resume_def upload_try_def Let_def new_job_def
        upload_begin_fields set_submit_fields)
next
  case (Inr ts)
  with assms show ?thesis
    by (simp add: handleUpload_def upload_resume_def upload_try_def Let_def new_job_def
        upload_begin_fields set_submit_fields form_reset_fields startPolling_fields)
qed

lemma handleUpload_rendered:
  assumes "uploadForm st = Some f" and "ok code"
    and "or_js (p_job_id pl) (p_id pl) = Str i" and "i \<noteq> []"
    and "renderJob (new_job i (form_file f) pl) (rows st) = Inr ts"
  shows "rows (handleUpload (Http code (JsonObj pl)) st) = ts"
    and "uploadStatus (handleUpload (Http code (JsonObj pl)) st) = ''Upload successful! Job created.''"
    and "console (handleUpload (Http code (JsonObj pl)) st) = console st"
  using assms
  by (simp_all add: handleUpload_def upload_resume_def upload_try_def Let_def new_job_def
        upload_begin_fields set_submit_fields form_reset_fields startPolling_fields)

lemma handleUpload_not_rendered:
  assumes "uploadForm st = Some f" and "ok code"
    and "or_js (p_job_id pl) (p_id pl) = Str i" and "i \<noteq> []"
    and "renderJob (new_job i (form_file f) pl) (rows st) = Inl (e, ts)"
  shows "rows (handleUpload (Http code (JsonObj pl)) st) = ts"
    and "uploadStatus (handleUpload (Http code (JsonObj pl)) st) = ''Error: '' @ message e"
    and "console (handleUpload (Http code (JsonObj pl)) st) = console st @ [ErrorLogged e]"
    and "timers (handleUpload (Http code (JsonObj pl)) st) = timers st"
    and "pollerId (handleUpload (Http code (JsonObj pl)) st) = pollerId st"
  using assms
  by (simp_all add: handleUpload_def upload_resume_def upload_try_def Let_def new_job_def
        upload_begin_fields set_submit_fields)

section \<open>Every state the page reaches has a well-formed store\<close>

lemma jobs_ok_Nil: "jobs_ok []"
  by (simp add: jobs_ok_def)

lemma jobs_ok_upload_resume: "jobs_ok (jobs st) \<Longrightarrow> jobs_ok (jobs (upload_resume fl res st))"
proof (cases fl res st rule: upload_try_cases)
  case (rejects e)
  assume "jobs_ok (jobs st)"
  then show ?thesis using rejects(1) by (simp add: upload_resume_def set_submit_fields)
next
  case (creates code pl i ts)
  assume "jobs_ok (jobs st)"
  then have "jobs_ok (jobs_set i (new_job i fl pl) (jobs st))"
    by (rule jobs_ok_jobs_set) (simp add: new_job_def)
  then show ?thesis
    by (simp add: creates(6) upload_resume_def set_submit_fields form_reset_fields
        startPolling_fields)
next
  case (throws code pl i e ts)
  assume "jobs_ok (jobs st)"
  then have "jobs_ok (jobs_set i (new_job i fl pl) (jobs st))"
    by (rule jobs_ok_jobs_set) (simp add: new_job_def)
  then show ?thesis
    by (simp add: throws(6) upload_resume_def set_submit_fields)
qed

lemma jobs_ok_handleUpload: "jobs_ok (jobs st) \<Longrightarrow> jobs_ok (jobs (handleUpload res st))"
  by (cases "uploadForm st")
     (simp_all add: handleUpload_def jobs_ok_upload_resume upload_begin_fields)

lemma jobs_ok_pollAllJobs: "jobs_ok (jobs st) \<Longrightarrow> jobs_ok (jobs (pollAllJobs fetch st))"
  by (simp add: jobs_pollAllJobs jobs_ok_poll_settle jobs_set_indicator)

lemma jobs_ok_run: "jobs_ok (jobs st) \<Longrightarrow> jobs_ok (jobs (run ev st))"
  by (cases ev)
     (simp_all add: jobs_ok_handleUpload jobs_ok_upload_resume jobs_ok_pollAllJobs
       jobs_ok_poll_job jobs_set_indicator upload_begin_fields jobs_ok_Nil split: option.splits)

lemma jobs_ok_run_all: "jobs_ok (jobs st) \<Longrightarrow> jobs_ok (jobs (run_all evs st))"
  unfolding run_all_def by (induction evs arbitrary: st) (simp_all add: jobs_ok_run)

lemma jobs_ok_seed_rows: "jobs_ok js \<Longrightarrow> jobs_ok (seed_rows nt stt ts js)"
  by (induction nt stt ts js rule: seed_rows.induct) (simp_all add: jobs_ok_jobs_set)

lemma jobs_ok_load_page: "jobs_ok (jobs (load_page nt stt ts us ind f))"
proof -
  have "jobs_ok (seed_rows nt stt ts [])"
    by (rule jobs_ok_seed_rows) (rule jobs_ok_Nil)
  then show ?thesis
    by (simp add: load_page_def seedExistingJobs_def Let_def startPolling_fields jobs_ok_Nil)
qed

lemma jobs_ok_reachable: "jobs_ok (jobs (run_all evs (load_page nt stt ts us ind f)))"
  by (intro jobs_ok_run_all jobs_ok_load_page)

section \<open>Polling: what a tick does to a job\<close>







section \<open>The download link\<close>

lemma toLowerCase_ascii: "list_all is_ascii s \<Longrightarrow> toLowerCase s = map lower_char s"
  by (simp add: toLowerCase_def)







section \<open>A failed status request\<close>

text \<open>
  C3. If the status request for \<open>k\<close> is rejected by the network or answered with a status
  outside 200..299, the tick leaves the record stored under \<open>k\<close> and the row of \<open>k\<close> as
  they were, no key leaves the store (so the next tick polls \<open>k\<close> again), and the exception
  that the continuation throws on this response is caught: the continuation of any job in
  any state ends in that state with the exception written to the console. The same holds
  for the continuations of any jobs run in any order from any state.
\<close>

theorem pollAllJobs_failure_leaves_record:
  assumes "fetch (status_url k) = NetworkError m \<or> (fetch (status_url k) = Http code b \<and> \<not> ok code)"
  shows "map_of (jobs (pollAllJobs fetch st)) k = map_of (jobs st) k
     \<and> find_row k (rows (pollAllJobs fetch st)) = find_row k (rows st)
     \<and> fst ` set (jobs st) \<subseteq> fst ` set (jobs (pollAllJobs fetch st))
     \<and> map_of (jobs (poll_settle fetch js s')) k = map_of (jobs s') k
     \<and> find_row k (rows (poll_settle fetch js s')) = find_row k (rows s')
     \<and> (\<exists>e. poll_try j (fetch (status_url k)) s = Inl (e, s)
          \<and> poll_job j (fetch (status_url k)) s = s\<lparr>console := console s @ [PollFailureLogged e]\<rparr>)"
proof -
  let ?st1 = "set_indicator (''Refreshing'' @ ellipsis) st"
  let ?js = "map snd (jobs st)"
  have pf: "poll_fails (fetch (status_url k))"
    using assms by (cases b) auto
  then have "\<forall>j\<in>set ?js. id_job j = k \<longrightarrow> poll_fails (fetch (status_url k))" by simp
  from poll_settle_untouched [of ?js k fetch ?st1, OF this]
  have a: "map_of (jobs (pollAllJobs fetch st)) k = map_of (jobs st) k"
    and b: "find_row k (rows (pollAllJobs fetch st)) = find_row k (rows st)"
    by (simp_all add: jobs_pollAllJobs rows_pollAllJobs jobs_set_indicator rows_set_indicator)
  have c: "fst ` set (jobs st) \<subseteq> fst ` set (jobs (pollAllJobs fetch st))"
    using keys_mono_poll_settle [of ?st1 fetch ?js]
    by (simp add: jobs_pollAllJobs jobs_set_indicator)
  from poll_try_fails [OF pf] obtain e where e: "poll_try j (fetch (status_url k)) s = Inl (e, s)"
    by blast
  then have "poll_job j (fetch (status_url k)) s = s\<lparr>console := console s @ [PollFailureLogged e]\<rparr>"
    by (simp add: poll_job_def)
  moreover have "map_of (jobs (poll_settle fetch js s')) k = map_of (jobs s') k
     \<and> find_row k (rows (poll_settle fetch js s')) = find_row k (rows s')"
    using pf by (intro poll_settle_untouched) simp
  ultimately show ?thesis using a b c e by blast
qed

theorem pollAllJobs_failure_leaves_record_witness:
  "fetch_500 (status_url ''42'') = Http 500 (NoObject []) \<and> \<not> ok 500
   \<and> map_of (jobs (pollAllJobs fetch_500 page_42)) ''42'' = Some job_42
   \<and> find_row ''42'' (rows (pollAllJobs fetch_500 page_42)) = find_row ''42'' (rows page_42)
   \<and> poll_job job_42 (fetch_500 (status_url ''42'')) page_42
       = page_42\<lparr>console := console page_42 @ [PollFailureLogged (StatusRequestFailed 500)]\<rparr>
   \<and> fetch_offline (status_url ''42'') = NetworkError ''Failed to fetch''
   \<and> map_of (jobs (pollAllJobs fetch_offline page_42)) ''42'' = Some job_42"
proof -
  have h: "fetch_500 (status_url ''42'') = Http 500 (NoObject [])" "\<not> ok 500"
    by (simp_all add: fetch_500_def ok_def)
  then have h': "fetch_500 (status_url ''42'') = NetworkError []
      \<or> (fetch_500 (status_url ''42'') = Http 500 (NoObject []) \<and> \<not> ok 500)" by simp
  have m: "map_of (jobs page_42) ''42'' = Some job_42" by code_simp
  from pollAllJobs_failure_leaves_record [where fetch = fetch_500 and st = page_42 and j = job_42
      and s = page_42 and js = "[job_42]" and s' = page_42, OF h'] m
  obtain e where
    a: "map_of (jobs (pollAllJobs fetch_500 page_42)) ''42'' = Some job_42"
    and b: "find_row ''42'' (rows (pollAllJobs fetch_500 page_42)) = find_row ''42'' (rows page_42)"
    and c: "poll_try job_42 (fetch_500 (status_url ''42'')) page_42 = Inl (e, page_42)"
    and d: "poll_job job_42 (fetch_500 (status_url ''42'')) page_42
       = page_42\<lparr>console := console page_42 @ [PollFailureLogged e]\<rparr>"
    by auto
  from c h have e: "e = StatusRequestFailed 500" by (simp add: poll_try_def)
  have o: "fetch_offline (status_url ''42'') = NetworkError ''Failed to fetch''"
    by (simp add: fetch_offline_def)
  then have o': "fetch_offline (status_url ''42'') = NetworkError ''Failed to fetch''
      \<or> (fetch_offline (status_url ''42'') = Http 0 (NoObject []) \<and> \<not> ok 0)" by simp
  from pollAllJobs_failure_leaves_record [where fetch = fetch_offline and st = page_42
      and j = job_42 and s = page_42 and js = "[job_42]" and s' = page_42, OF o'] m
  have n: "map_of (jobs (pollAllJobs fetch_offline page_42)) ''42'' = Some job_42"
    by simp
  from e h a b d o n show ?thesis by simp
qed

section \<open>At most one timer\<close>

text \<open>
  C4. \<open>startPolling\<close> changes nothing when the store is empty and nothing when a timer
  already runs, so calling it twice is calling it once. With a job in the store and no
  timer it starts one timer with the delay 5000 and keeps its handle in \<open>pollerId\<close>. After
  loading and any sequence of uploads, ticks and their continuations, in any interleaving,
  the window has at most one timer, the one \<open>pollerId\<close> names.
\<close>

theorem startPolling_single_timer:
  "(jobs st = [] \<longrightarrow> startPolling st = st)
   \<and> (pollerId st \<noteq> None \<longrightarrow> startPolling st = st)
   \<and> startPolling (startPolling st) = startPolling st
   \<and> (jobs st \<noteq> [] \<and> pollerId st = None \<longrightarrow>
        startPolling st = st\<lparr>timers := timers st @ [(Suc (length (timers st)), 5000)],
                             pollerId := Some (Suc (length (timers st)))\<rparr>)
   \<and> timer_ok (run_all evs (load_page nt stt ts us ind f))
   \<and> length (timers (run_all evs (load_page nt stt ts us ind f))) \<le> 1"
proof -
  have idem: "startPolling (startPolling st) = startPolling st"
  proof (cases "pollerId st \<noteq> None \<or> jobs st = []")
    case True
    then show ?thesis by (simp add: startPolling_noop)
  next
    case False
    then have "pollerId (startPolling st) \<noteq> None" by (simp add: startPolling_starts)
    then show ?thesis by (simp add: startPolling_noop)
  qed
  have ok: "timer_ok (run_all evs (load_page nt stt ts us ind f))"
    by (intro timer_ok_run_all timer_ok_load_page)
  from idem ok timer_ok_length [OF ok] show ?thesis
    by (simp add: startPolling_noop startPolling_starts POLL_INTERVAL_MS_def)
qed

theorem startPolling_single_timer_witness:
  "jobs page_0 = [] \<and> startPolling page_0 = page_0
   \<and> pollerId page_42 = Some 1 \<and> startPolling page_42 = page_42
   \<and> jobs page_untimed = [(''42'', job_42)] \<and> pollerId page_untimed = None
   \<and> timers page_untimed = []
   \<and> timers (startPolling page_untimed) = [(1, 5000)]
   \<and> pollerId (startPolling page_untimed) = Some 1
   \<and> length (timers (run_all [Upload (Http 200 (JsonObj body_42)), Tick fetch_done,
        Upload (Http 200 (JsonObj body_42))] page_0)) \<le> 1"
proof -
  have a: "jobs page_0 = []" by code_simp
  have b: "pollerId page_42 = Some 1" by code_simp
  have c: "jobs page_untimed = [(''42'', job_42)]" "pollerId page_untimed = None"
    "timers page_untimed = []" by code_simp+
  note t0 = startPolling_single_timer [where st = page_0 and evs = "[]" and nt = no_text
      and stt = no_text and ts = "[EmptyRow]" and us = "[]" and ind = "Some []"
      and f = "Some \<lparr>form_file = Some ''report.pdf'', submit_disabled = Some False\<rparr>"]
  note t1 = startPolling_single_timer [where st = page_42 and evs = "[]" and nt = no_text
      and stt = no_text and ts = "[EmptyRow]" and us = "[]" and ind = "Some []"
      and f = "Some \<lparr>form_file = Some ''report.pdf'', submit_disabled = Some False\<rparr>"]
  note t2 = startPolling_single_timer [where st = page_untimed
      and evs = "[Upload (Http 200 (JsonObj body_42)), Tick fetch_done,
        Upload (Http 200 (JsonObj body_42))]" and nt = no_text
      and stt = no_text and ts = "[EmptyRow]" and us = "[]" and ind = "Some []"
      and f = "Some \<lparr>form_file = Some ''report.pdf'', submit_disabled = Some False\<rparr>"]
  from t0 a have a': "startPolling page_0 = page_0" by simp
  from t1 b have b': "startPolling page_42 = page_42" by simp
  from t2 c have c': "timers (startPolling page_untimed) = [(1, 5000)]"
    "pollerId (startPolling page_untimed) = Some 1" by simp_all
  from t2 have d: "length (timers (run_all [Upload (Http 200 (JsonObj body_42)), Tick fetch_done,
        Upload (Http 200 (JsonObj body_42))] page_0)) \<le> 1"
    by (simp add: page_0_def)
  from a a' b b' c c' d show ?thesis by simp
qed

section \<open>What an upload leaves in the store\<close>

text \<open>
  C5, with the last fallback of the code. Let the upload be answered with a 2xx response
  whose body is an object with a non-empty \<open>job_id\<close>. When the handler has finished,
  the store has exactly one entry under that id: the job with this id, whose filename is
  the filename of the response if present and not empty, else the name of the submitted
  file if there is one and it is not empty, else \<open>PDF\<close>, and whose status is the status
  of the response if present and not empty, else \<open>pending\<close>.
\<close>

theorem handleUpload_stores_job:
  assumes "uploadForm st = Some f" and "ok code" and "p_job_id pl = Str i" and "i \<noteq> []"
    and "distinct (map fst (jobs st))"
  shows "\<exists>j. filter (\<lambda>p. fst p = i) (jobs (handleUpload (Http code (JsonObj pl)) st)) = [(i, j)]
      \<and> id_job j = i
      \<and> filename j = or_jsval (p_filename pl) (or_str (form_file f) (Some ''PDF''))
      \<and> status j = or_jsval (p_status pl) (Some ''pending'')
      \<and> (\<forall>n. p_filename pl = Str n \<longrightarrow> n \<noteq> [] \<longrightarrow> filename j = Some n)
      \<and> (\<not> truthy (p_filename pl) \<longrightarrow> (\<forall>n. form_file f = Some n \<longrightarrow> n \<noteq> [] \<longrightarrow> filename j = Some n))
      \<and> (\<not> truthy (p_filename pl) \<longrightarrow> form_file f = None \<or> form_file f = Some [] \<longrightarrow>
            filename j = Some ''PDF'')
      \<and> (\<forall>s. p_status pl = Str s \<longrightarrow> s \<noteq> [] \<longrightarrow> status j = Some s)
      \<and> (\<not> truthy (p_status pl) \<longrightarrow> status j = Some ''pending'')"
proof -
  let ?j = "new_job i (form_file f) pl"
  have o: "or_js (p_job_id pl) (p_id pl) = Str i"
    using assms(3,4) by (simp add: or_js_def)
  have "jobs (handleUpload (Http code (JsonObj pl)) st) = jobs_set i ?j (jobs st)"
    using assms(1,2) o assms(4) by (rule jobs_handleUpload)
  then have a: "filter (\<lambda>p. fst p = i) (jobs (handleUpload (Http code (JsonObj pl)) st)) = [(i, ?j)]"
    using assms(5) by (simp add: filter_key_jobs_set)
  have b: "id_job ?j = i"
    "filename ?j = or_jsval (p_filename pl) (or_str (form_file f) (Some ''PDF''))"
    "status ?j = or_jsval (p_status pl) (Some ''pending'')"
    by (simp_all add: new_job_def)
  have c: "\<forall>n. p_filename pl = Str n \<longrightarrow> n \<noteq> [] \<longrightarrow> filename ?j = Some n"
    "\<forall>s. p_status pl = Str s \<longrightarrow> s \<noteq> [] \<longrightarrow> status ?j = Some s"
    by (simp_all add: new_job_def)
  have nt: "\<not> truthy v \<Longrightarrow> or_jsval v d = d" for v d
    by (cases v rule: truthy.cases) simp_all
  have d: "\<not> truthy (p_filename pl) \<longrightarrow> (\<forall>n. form_file f = Some n \<longrightarrow> n \<noteq> [] \<longrightarrow> filename ?j = Some n)"
    "\<not> truthy (p_filename pl) \<longrightarrow> form_file f = None \<or> form_file f = Some [] \<longrightarrow>
            filename ?j = Some ''PDF''"
    "\<not> truthy (p_status pl) \<longrightarrow> status ?j = Some ''pending''"
    by (auto simp: new_job_def nt)
  from a b c d show ?thesis by blast
qed

theorem handleUpload_stores_job_witness:
  "uploadForm page_0 = Some \<lparr>form_file = Some ''report.pdf'', submit_disabled = Some False\<rparr>
   \<and> ok 200 \<and> p_job_id body_42 = Str ''42'' \<and> distinct (map fst (jobs page_0))
   \<and> filter (\<lambda>p. fst p = ''42'') (jobs (handleUpload (Http 200 (JsonObj body_42)) page_0))
       = [(''42'', \<lparr>id_job = ''42'', filename = Some ''report.pdf'', status = Some ''pending''\<rparr>)]
   \<and> uploadForm page_nofile = Some \<lparr>form_file = Some [], submit_disabled = Some False\<rparr>
   \<and> p_job_id body_bare = Str ''42'' \<and> distinct (map fst (jobs page_nofile))
   \<and> filter (\<lambda>p. fst p = ''42'') (jobs (handleUpload (Http 200 (JsonObj body_bare)) page_nofile))
       = [(''42'', \<lparr>id_job = ''42'', filename = Some ''PDF'', status = Some ''pending''\<rparr>)]"
proof -
  have h1: "uploadForm page_0 = Some \<lparr>form_file = Some ''report.pdf'', submit_disabled = Some False\<rparr>"
    by code_simp
  have h2: "ok 200" by (simp add: ok_def)
  have h3: "p_job_id body_42 = Str ''42''" by (simp add: body_42_def)
  have h4: "''42'' \<noteq> []" by simp
  have h5: "distinct (map fst (jobs page_0))" by code_simp
  from handleUpload_stores_job [OF h1 h2 h3 h4 h5]
  obtain j where
    a: "filter (\<lambda>p. fst p = ''42'') (jobs (handleUpload (Http 200 (JsonObj body_42)) page_0)) = [(''42'', j)]"
    and b: "id_job j = ''42''"
    and c: "filename j = or_jsval (p_filename body_42) (or_str (form_file \<lparr>form_file = Some ''report.pdf'', submit_disabled = Some False\<rparr>) (Some ''PDF''))"
    and d: "status j = or_jsval (p_status body_42) (Some ''pending'')"
    by blast
  from b c d have j: "j = \<lparr>id_job = ''42'', filename = Some ''report.pdf'', status = Some ''pending''\<rparr>"
    by (cases j) (simp add: body_42_def)
  have k1: "uploadForm page_nofile = Some \<lparr>form_file = Some [], submit_disabled = Some False\<rparr>"
    by code_simp
  have k3: "p_job_id body_bare = Str ''42''" by (simp add: body_bare_def)
  have k5: "distinct (map fst (jobs page_nofile))" by code_simp
  from handleUpload_stores_job [OF k1 h2 k3 h4 k5]
  obtain j2 where
    a2: "filter (\<lambda>p. fst p = ''42'') (jobs (handleUpload (Http 200 (JsonObj body_bare)) page_nofile)) = [(''42'', j2)]"
    and b2: "id_job j2 = ''42''"
    and c2: "filename j2 = or_jsval (p_filename body_bare) (or_str (form_file \<lparr>form_file = Some [], submit_disabled = Some False\<rparr>) (Some ''PDF''))"
    and d2: "status j2 = or_jsval (p_status body_bare) (Some ''pending'')"
    by blast
  from b2 c2 d2 have j2: "j2 = \<lparr>id_job = ''42'', filename = Some ''PDF'', status = Some ''pending''\<rparr>"
    by (cases j2) (simp add: body_bare_def)
  from a j h1 h2 h3 h5 a2 j2 k1 k3 k5 show ?thesis by simp
qed

text \<open>
  C5, with the name of the submitted file as the only fallback, fails: with no file chosen
  and a response that has a \<open>job_id\<close> and no filename, the stored filename is \<open>PDF\<close>, not
  the (empty) name of the submitted file.
\<close>

theorem handleUpload_filename_counterexample:
  "uploadForm page_nofile = Some \<lparr>form_file = Some [], submit_disabled = Some False\<rparr>
   \<and> ok 200 \<and> p_job_id body_bare = Str ''42'' \<and> p_filename body_bare = Undefined
   \<and> map_option filename (map_of (jobs (handleUpload (Http 200 (JsonObj body_bare)) page_nofile)) ''42'')
       = Some (Some ''PDF'')
   \<and> map_option filename (map_of (jobs (handleUpload (Http 200 (JsonObj body_bare)) page_nofile)) ''42'')
       \<noteq> Some (Some [])"
  by code_simp

text \<open>
  C6. If a 2xx upload response has an object as body in which neither \<open>job_id\<close> nor \<open>id\<close>
  is a non-empty string, the handler throws the missing-job-id error and catches it: the
  store, the table, the timers and \<open>pollerId\<close> are as before, and the message
  \<open>Error: Missing job id in response\<close> is shown and the error logged.
\<close>

theorem handleUpload_missing_job_id:
  assumes "uploadForm st = Some f" and "ok code"
    and "\<not> truthy (p_job_id pl)" and "\<not> truthy (p_id pl)"
  shows "upload_try (form_file f) (Http code (JsonObj pl)) (upload_begin st)
           = Inl (MissingJobId, upload_begin st)
     \<and> jobs (handleUpload (Http code (JsonObj pl)) st) = jobs st
     \<and> rows (handleUpload (Http code (JsonObj pl)) st) = rows st
     \<and> timers (handleUpload (Http code (JsonObj pl)) st) = timers st
     \<and> pollerId (handleUpload (Http code (JsonObj pl)) st) = pollerId st
     \<and> uploadStatus (handleUpload (Http code (JsonObj pl)) st) = ''Error: Missing job id in response''
     \<and> console (handleUpload (Http code (JsonObj pl)) st) = console st @ [ErrorLogged MissingJobId]"
proof -
  have t: "upload_try (form_file f) (Http code (JsonObj pl)) (upload_begin st)
      = Inl (MissingJobId, upload_begin st)"
    using assms(2-4) by (rule upload_try_missing)
  from handleUpload_rejects [OF assms(1) t] t show ?thesis
    by (simp add: set_submit_fields upload_begin_fields)
qed

theorem handleUpload_missing_job_id_witness:
  "uploadForm page_0 = Some \<lparr>form_file = Some ''report.pdf'', submit_disabled = Some False\<rparr>
   \<and> ok 200 \<and> \<not> truthy (p_job_id body_no_id) \<and> \<not> truthy (p_id body_no_id)
   \<and> jobs (handleUpload (Http 200 (JsonObj body_no_id)) page_0) = []
   \<and> rows (handleUpload (Http 200 (JsonObj body_no_id)) page_0) = [EmptyRow]
   \<and> timers (handleUpload (Http 200 (JsonObj body_no_id)) page_0) = []
   \<and> pollerId (handleUpload (Http 200 (JsonObj body_no_id)) page_0) = None
   \<and> uploadStatus (handleUpload (Http 200 (JsonObj body_no_id)) page_0)
       = ''Error: Missing job id in response''"
proof -
  have h1: "uploadForm page_0 = Some \<lparr>form_file = Some ''report.pdf'', submit_disabled = Some False\<rparr>"
    by code_simp
  have h2: "ok 200" by (simp add: ok_def)
  have h3: "\<not> truthy (p_job_id body_no_id)" and h4: "\<not> truthy (p_id body_no_id)"
    by (simp_all add: body_no_id_def)
  have p: "jobs page_0 = []" "rows page_0 = [EmptyRow]" "timers page_0 = []" "pollerId page_0 = None"
    by code_simp+
  from handleUpload_missing_job_id [OF h1 h2 h3 h4] p h1 h2 h3 h4 show ?thesis by simp
qed

text \<open>
  C7. The submit button, if the form has one, is disabled when the upload starts and
  enabled when the handler has finished, whatever the response: success, a status outside
  200..299, a network error, a body that is no object, or a missing job id. The continuation
  enables it from whatever state it resumes in. On a status outside 200..299 the store and
  the table are unchanged and \<open>Error: Upload failed (code)\<close> is shown and logged.
\<close>

theorem handleUpload_reenables_submit:
  assumes "uploadForm st = Some f"
  shows "map_option submit_disabled (uploadForm (upload_begin st))
           = Some (map_option (\<lambda>_. True) (submit_disabled f))
     \<and> map_option submit_disabled (uploadForm (handleUpload res st))
           = Some (map_option (\<lambda>_. False) (submit_disabled f))
     \<and> map_option submit_disabled (uploadForm (upload_resume fl res s))
           = map_option (\<lambda>g. map_option (\<lambda>_. False) (submit_disabled g)) (uploadForm s)
     \<and> (\<not> ok code \<longrightarrow>
           jobs (handleUpload (Http code b) st) = jobs st
         \<and> rows (handleUpload (Http code b) st) = rows st
         \<and> uploadStatus (handleUpload (Http code b) st)
             = ''Error: Upload failed ('' @ show_nat code @ '')''
         \<and> console (handleUpload (Http code b) st) = console st @ [ErrorLogged (UploadFailed code)])"
proof -
  have a: "map_option submit_disabled (uploadForm (upload_begin st))
           = Some (map_option (\<lambda>_. True) (submit_disabled f))"
    using assms by (simp add: upload_begin_def set_submit_def)
  have r: "map_option submit_disabled (uploadForm (upload_resume fl' res' s'))
           = map_option (\<lambda>g. map_option (\<lambda>_. False) (submit_disabled g)) (uploadForm s')"
    for fl' res' s'
  proof (cases fl' res' s' rule: upload_try_cases)
    case (rejects e)
    then show ?thesis
      by (simp add: upload_resume_def submit_after_set_submit)
  next
    case (throws code pl i e ts)
    then show ?thesis
      by (simp add: upload_resume_def submit_after_set_submit)
  next
    case (creates code pl i ts)
    have fr: "map_option (\<lambda>g. map_option (\<lambda>_. False) (submit_disabled g)) (uploadForm (form_reset s1))
        = map_option (\<lambda>g. map_option (\<lambda>_. False) (submit_disabled g)) (uploadForm s1)" for s1
      by (cases "uploadForm s1") (simp_all add: form_reset_def)
    show ?thesis
      by (simp add: creates(6) upload_resume_def submit_after_set_submit fr startPolling_fields)
  qed
  have "map_option submit_disabled (uploadForm (handleUpload res st))
      = map_option (\<lambda>g. map_option (\<lambda>_. False) (submit_disabled g)) (uploadForm (upload_begin st))"
    using assms by (simp add: handleUpload_def r)
  also have "\<dots> = Some (map_option (\<lambda>_. False) (submit_disabled f))"
    using assms by (cases "submit_disabled f") (simp_all add: upload_begin_def set_submit_def)
  finally have b: "map_option submit_disabled (uploadForm (handleUpload res st))
      = Some (map_option (\<lambda>_. False) (submit_disabled f))" .
  have c: "jobs (handleUpload (Http code b) st) = jobs st
         \<and> rows (handleUpload (Http code b) st) = rows st
         \<and> uploadStatus (handleUpload (Http code b) st)
             = ''Error: Upload failed ('' @ show_nat code @ '')''
         \<and> console (handleUpload (Http code b) st) = console st @ [ErrorLogged (UploadFailed code)]"
    if "\<not> ok code"
  proof -
    have t: "upload_try (form_file f) (Http code b) (upload_begin st)
        = Inl (UploadFailed code, upload_begin st)"
      using that by (rule upload_try_not_ok)
    from handleUpload_rejects [OF assms t] show ?thesis
      by (simp add: set_submit_fields upload_begin_fields)
  qed
  from a b r c show ?thesis by blast
qed

theorem handleUpload_reenables_submit_witness:
  "uploadForm page_0 = Some \<lparr>form_file = Some ''report.pdf'', submit_disabled = Some False\<rparr>
   \<and> \<not> ok 500
   \<and> map_option submit_disabled (uploadForm (upload_begin page_0)) = Some (Some True)
   \<and> map_option submit_disabled (uploadForm (handleUpload (Http 500 (NoObject [])) page_0))
       = Some (Some False)
   \<and> jobs (handleUpload (Http 500 (NoObject [])) page_0) = []
   \<and> uploadStatus (handleUpload (Http 500 (NoObject [])) page_0) = ''Error: Upload failed (500)''"
proof -
  have h1: "uploadForm page_0 = Some \<lparr>form_file = Some ''report.pdf'', submit_disabled = Some False\<rparr>"
    by code_simp
  have h2: "\<not> ok 500" by (simp add: ok_def)
  have p: "jobs page_0 = []" by code_simp
  have n: "show_nat 500 = ''500''" by code_simp
  from handleUpload_reenables_submit [OF h1, where res = "Http 500 (NoObject [])" and code = 500
      and b = "NoObject []"] h1 h2 p n
  show ?thesis by simp
qed

section \<open>The status badge\<close>

lemma lower_char_ascii: "is_ascii c \<Longrightarrow> is_ascii (lower_char c)"
  by (auto simp: is_ascii_def lower_char_def Let_def)

lemma tokenize_badge_open:
  "tokenize Data (''<span class=\"'' @ rest) = tokenize (AttrValue ''span'' [] ''class'' []) rest"
  by code_simp

lemma tokenize_attr_value:
  "list_all (\<lambda>c. c \<noteq> CHR 0x22 \<and> \<not> unparsed c) w \<Longrightarrow>
     tokenize (AttrValue n as a v) (w @ CHR 0x22 # rest)
       = tokenize (AfterAttrValue n (as @ [(a, v @ w)])) rest"
  by (induction w arbitrary: v) simp_all

lemma tokenize_text:
  "list_all (\<lambda>c. c \<noteq> CHR ''<'' \<and> \<not> unparsed c) t \<Longrightarrow>
     tokenize Data (t @ rest) = map_option ((@) (map Character t)) (tokenize Data rest)"
  by (induction t) (cases "tokenize Data rest"; simp add: emit_def)+

lemma tokenize_badge_close: "tokenize Data ''</span>'' = Some [EndTag ''span'']"
  by code_simp

lemma span_text_chars:
  "span_text d (map Character t @ ts) = map_option ((@) t) (span_text d ts)"
  by (induction t) (cases "span_text d ts"; simp)+

lemma plain_char_text: "plain_char c \<Longrightarrow> c \<noteq> CHR ''<'' \<and> \<not> unparsed c"
  by (simp add: plain_char_def)

lemma plain_char_value:
  assumes "plain_char c"
  shows "lower_char c \<noteq> CHR 0x22 \<and> \<not> unparsed (lower_char c)"
proof (cases "65 \<le> (of_char c :: nat) \<and> (of_char c :: nat) \<le> 90")
  case False
  then have "lower_char c = c" by (auto simp: lower_char_def Let_def)
  with assms show ?thesis by (simp add: plain_char_def)
next
  case True
  then have "(of_char (lower_char c) :: nat) = of_char c + 32"
    by (simp add: lower_char_def Let_def)
  with True have n: "97 \<le> (of_char (lower_char c) :: nat)" by simp
  have "(of_char d :: nat) < 97" if "d = CHR 0x22 \<or> d = CHR ''&''" for d
    using that by auto
  with n have "lower_char c \<noteq> CHR 0x22 \<and> lower_char c \<noteq> CHR ''&''"
    by (metis not_le)
  with n show ?thesis by (simp add: unparsed_def)
qed

lemma badge_prefix_value: "list_all (\<lambda>c. c \<noteq> CHR 0x22 \<and> \<not> unparsed c) ''badge ''"
  by code_simp

lemma parse_badge_plain:
  assumes "list_all plain_char s"
  shows "parse_badge (renderStatusBadge (Some s))
           = Some \<lparr>badge_class = ''badge '' @ map lower_char s, badge_text = s\<rparr>"
proof -
  let ?v = "''badge '' @ map lower_char s"
  from assms have asc: "list_all is_ascii s"
    by (simp add: list_all_iff plain_char_def)
  from assms have tx: "list_all (\<lambda>c. c \<noteq> CHR ''<'' \<and> \<not> unparsed c) s"
    using plain_char_text by (simp add: list_all_iff)
  from assms have "list_all (\<lambda>c. c \<noteq> CHR 0x22 \<and> \<not> unparsed c) (map lower_char s)"
    using plain_char_value by (simp add: list_all_iff)
  with badge_prefix_value have vl: "list_all (\<lambda>c. c \<noteq> CHR 0x22 \<and> \<not> unparsed c) ?v"
    by simp
  have m: "renderStatusBadge (Some s)
      = ''<span class=\"'' @ (?v @ CHR 0x22 # (CHR ''>'' # (s @ ''</span>'')))"
    by (simp add: renderStatusBadge_def toLowerCase_ascii [OF asc])
  have "tokenize Data (renderStatusBadge (Some s))
      = tokenize (AttrValue ''span'' [] ''class'' []) (?v @ CHR 0x22 # (CHR ''>'' # (s @ ''</span>'')))"
    by (simp only: m tokenize_badge_open)
  also have "\<dots> = tokenize (AfterAttrValue ''span'' [(''class'', ?v)]) (CHR ''>'' # (s @ ''</span>''))"
    using tokenize_attr_value [OF vl, of "''span''" "[]" "''class''" "[]"] by simp
  also have "\<dots> = emit (StartTag ''span'' [(''class'', ?v)]) (tokenize Data (s @ ''</span>''))"
    by simp
  also have "\<dots> = Some (StartTag ''span'' [(''class'', ?v)] # map Character s @ [EndTag ''span''])"
    by (simp only: tokenize_text [OF tx] tokenize_badge_close) (simp add: emit_def)
  finally have t: "tokenize Data (renderStatusBadge (Some s))
      = Some (StartTag ''span'' [(''class'', ?v)] # map Character s @ [EndTag ''span''])" .
  have sp: "span_text 0 (map Character s @ [EndTag ''span'']) = Some s"
    by (simp add: span_text_chars)
  show ?thesis
    by (simp only: parse_badge_def t) (simp add: sp)
qed

text \<open>
  C8 fails on the markup that reaches the document. The badge is the template
  \<open><span class="badge ${normalized}">${status}</span>\<close> with the status put in
  unescaped, and \<open>renderJob\<close> assigns it to \<open>innerHTML\<close>. For the status
  \<open><span>x</span>\<close> the text that the badge shows is \<open>x\<close>, not the status. A status of
  plain characters is shown as it is, with its class lowercased: \<open>Done\<close> gives the text
  \<open>Done\<close> and the class \<open>badge done\<close> (lemma \<open>parse_badge_plain\<close> for all of them).
\<close>

theorem renderStatusBadge_markup_in_status:
  "renderStatusBadge (Some ''<span>x</span>'')
     = ''<span class=\"badge <span>x</span>\"><span>x</span></span>''
   \<and> parse_badge (renderStatusBadge (Some ''<span>x</span>''))
       = Some \<lparr>badge_class = ''badge <span>x</span>'', badge_text = ''x''\<rparr>
   \<and> map_option badge_text (parse_badge (renderStatusBadge (Some ''<span>x</span>'')))
       \<noteq> Some ''<span>x</span>''
   \<and> map_option cell_status (find_row ''42''
         (state_after (renderJob \<lparr>id_job = ''42'', filename = None, status = Some ''<span>x</span>''\<rparr>
            [EmptyRow])))
       = Some (Some ''<span class=\"badge <span>x</span>\"><span>x</span></span>'')
   \<and> parse_badge (renderStatusBadge (Some ''Done''))
       = Some \<lparr>badge_class = ''badge done'', badge_text = ''Done''\<rparr>
   \<and> parse_badge (renderStatusBadge None)
       = Some \<lparr>badge_class = ''badge pending'', badge_text = ''pending''\<rparr>"
  by code_simp

section \<open>A tick keeps the ids\<close>

text \<open>
  C9. On a well-formed store a tick keeps the keys, in their order: none is added and none
  removed. Every record still carries the id of its key, and the store stays well formed,
  whatever the responses are. A single continuation keeps the keys as soon as its job's id
  is a key of the store it runs on, also when other handlers have run in between.
\<close>

theorem pollAllJobs_preserves_ids:
  assumes "jobs_ok (jobs st)"
  shows "map fst (jobs (pollAllJobs fetch st)) = map fst (jobs st)
     \<and> map (\<lambda>p. id_job (snd p)) (jobs (pollAllJobs fetch st)) = map fst (jobs st)
     \<and> jobs_ok (jobs (pollAllJobs fetch st))
     \<and> (id_job j \<in> fst ` set (jobs s) \<longrightarrow> map fst (jobs (poll_job j res s)) = map fst (jobs s))"
proof -
  let ?st1 = "set_indicator (''Refreshing'' @ ellipsis) st"
  let ?js = "map snd (jobs st)"
  have "\<forall>j\<in>set ?js. id_job j \<in> fst ` set (jobs ?st1)"
    using assms by (auto simp: jobs_set_indicator jobs_ok_def list_all_iff image_iff)
  from keys_poll_settle [OF this, of fetch]
  have a: "map fst (jobs (pollAllJobs fetch st)) = map fst (jobs st)"
    by (simp add: jobs_pollAllJobs jobs_set_indicator)
  have b: "jobs_ok (jobs (pollAllJobs fetch st))"
    using assms jobs_ok_poll_settle [of ?st1 fetch ?js]
    by (simp add: jobs_pollAllJobs jobs_set_indicator)
  have "map (\<lambda>p. id_job (snd p)) xs = map fst xs" if "jobs_ok xs" for xs
    using jobs_ok_ids [OF that] by (simp add: comp_def)
  from this [OF b] a have c: "map (\<lambda>p. id_job (snd p)) (jobs (pollAllJobs fetch st)) = map fst (jobs st)"
    by simp
  from a b c show ?thesis by (simp add: keys_poll_job)
qed

theorem pollAllJobs_preserves_ids_witness:
  "jobs_ok (jobs page_42) \<and> map fst (jobs page_42) = [''42'']
   \<and> map fst (jobs (pollAllJobs fetch_done page_42)) = [''42'']
   \<and> map (\<lambda>p. id_job (snd p)) (jobs (pollAllJobs fetch_done page_42)) = [''42'']
   \<and> map fst (jobs (poll_job job_42 (Http 200 (JsonObj body_done)) page_42)) = [''42'']"
proof -
  have h: "jobs_ok (jobs page_42)" by code_simp
  have k: "map fst (jobs page_42) = [''42'']" by code_simp
  then have m: "id_job job_42 \<in> fst ` set (jobs page_42)"
    by (metis job.select_convs(1) job_42_def list.set_intros(1) set_map)
  from pollAllJobs_preserves_ids [OF h, of fetch_done job_42 page_42 "Http 200 (JsonObj body_done)"] k m
  show ?thesis using h by simp
qed

section \<open>The fallback identifier of an upload\<close>

lemma handleUpload_console:
  assumes "uploadForm st = Some f" and "ok code"
    and "or_js (p_job_id pl) (p_id pl) = Str i" and "i \<noteq> []"
  shows "console (handleUpload (Http code (JsonObj pl)) st) = console st
     \<or> (\<exists>e. console (handleUpload (Http code (JsonObj pl)) st) = console st @ [ErrorLogged e]
            \<and> e \<noteq> MissingJobId)"
proof (cases "renderJob (new_job i (form_file f) pl) (rows st)")
  case (Inl a)
  obtain e ts where a: "a = (e, ts)" by (cases a)
  with Inl have r: "renderJob (new_job i (form_file f) pl) (rows st) = Inl (e, ts)" by simp
  from renderJob_exn [OF r] have "e \<noteq> MissingJobId" by auto
  with handleUpload_not_rendered(3) [OF assms r] show ?thesis by blast
next
  case (Inr ts)
  from handleUpload_rendered(3) [OF assms Inr] show ?thesis by simp
qed

text \<open>
  C10. For a 2xx upload response with an object as body, the missing-job-id error is
  thrown exactly when neither \<open>job_id\<close> nor \<open>id\<close> is truthy, and it is thrown before
  anything is written. When \<open>job_id\<close> is absent or falsy and \<open>id\<close> is a non-empty
  string, the job is stored under \<open>id\<close>, and the handler logs no missing-job-id error:
  it logs nothing, or the error that rendering the row has thrown. If the table renders
  the id (\<open>renders\<close>), the row of the job shows it, nothing is logged and the success
  message is shown.
\<close>

theorem handleUpload_id_fallback:
  assumes "uploadForm st = Some f" and "ok code"
  shows "((\<exists>s'. upload_try fl (Http code (JsonObj pl)) s = Inl (MissingJobId, s'))
            \<longleftrightarrow> \<not> truthy (p_job_id pl) \<and> \<not> truthy (p_id pl))
     \<and> (\<not> truthy (p_job_id pl) \<and> \<not> truthy (p_id pl) \<longrightarrow>
            upload_try fl (Http code (JsonObj pl)) s = Inl (MissingJobId, s))
     \<and> (\<not> truthy (p_job_id pl) \<longrightarrow> (\<forall>i. p_id pl = Str i \<longrightarrow> i \<noteq> [] \<longrightarrow>
            map_of (jobs (handleUpload (Http code (JsonObj pl)) st)) i
              = Some (new_job i (form_file f) pl)
          \<and> id_job (new_job i (form_file f) pl) = i
          \<and> (console (handleUpload (Http code (JsonObj pl)) st) = console st
              \<or> (\<exists>e. console (handleUpload (Http code (JsonObj pl)) st)
                        = console st @ [ErrorLogged e] \<and> e \<noteq> MissingJobId))
          \<and> (renders i (rows st) \<longrightarrow>
                (\<exists>r. find_row i (rows (handleUpload (Http code (JsonObj pl)) st)) = Some r
                    \<and> row_shows (new_job i (form_file f) pl) r)
              \<and> console (handleUpload (Http code (JsonObj pl)) st) = console st
              \<and> uploadStatus (handleUpload (Http code (JsonObj pl)) st)
                  = ''Upload successful! Job created.'')))"
proof -
  have a: "(\<exists>s'. upload_try fl (Http code (JsonObj pl)) s = Inl (MissingJobId, s'))
            \<longleftrightarrow> \<not> truthy (p_job_id pl) \<and> \<not> truthy (p_id pl)"
    using assms(2) by (rule upload_try_missing_iff)
  have a': "upload_try fl (Http code (JsonObj pl)) s = Inl (MissingJobId, s)"
    if "\<not> truthy (p_job_id pl) \<and> \<not> truthy (p_id pl)"
    using assms(2) that by (simp add: upload_try_missing)
  have b: "map_of (jobs (handleUpload (Http code (JsonObj pl)) st)) i
              = Some (new_job i (form_file f) pl)
          \<and> id_job (new_job i (form_file f) pl) = i
          \<and> (console (handleUpload (Http code (JsonObj pl)) st) = console st
              \<or> (\<exists>e. console (handleUpload (Http code (JsonObj pl)) st)
                        = console st @ [ErrorLogged e] \<and> e \<noteq> MissingJobId))
          \<and> (renders i (rows st) \<longrightarrow>
                (\<exists>r. find_row i (rows (handleUpload (Http code (JsonObj pl)) st)) = Some r
                    \<and> row_shows (new_job i (form_file f) pl) r)
              \<and> console (handleUpload (Http code (JsonObj pl)) st) = console st
              \<and> uploadStatus (handleUpload (Http code (JsonObj pl)) st)
                  = ''Upload successful! Job created.'')"
    if "\<not> truthy (p_job_id pl)" "p_id pl = Str i" "i \<noteq> []" for i
  proof -
    let ?j = "new_job i (form_file f) pl"
    have o: "or_js (p_job_id pl) (p_id pl) = Str i"
      using that by (simp add: or_js_def)
    have idj: "id_job ?j = i" by (simp add: new_job_def)
    have 1: "map_of (jobs (handleUpload (Http code (JsonObj pl)) st)) i = Some ?j"
      by (simp add: jobs_handleUpload [OF assms o that(3)] map_of_jobs_set)
    note 2 = handleUpload_console [OF assms o that(3)]
    have 3: "(\<exists>r. find_row i (rows (handleUpload (Http code (JsonObj pl)) st)) = Some r
                    \<and> row_shows ?j r)
              \<and> console (handleUpload (Http code (JsonObj pl)) st) = console st
              \<and> uploadStatus (handleUpload (Http code (JsonObj pl)) st)
                  = ''Upload successful! Job created.''"
      if rn: "renders i (rows st)"
    proof -
      from rn idj have "renders (id_job ?j) (rows st)" by simp
      from renderJob_renders [OF this] obtain ts' r where
        t: "renderJob ?j (rows st) = Inr ts'"
        and u: "find_row (id_job ?j) ts' = Some (filled ?j r)"
        and v: "data_job_id r = id_job ?j"
        by blast
      note fs = handleUpload_rendered [OF assms o \<open>i \<noteq> []\<close> t]
      from u idj row_shows_filled [OF v] show ?thesis
        by (simp add: fs)
    qed
    from 1 idj 2 3 show ?thesis by blast
  qed
  from a a' b show ?thesis by blast
qed

theorem handleUpload_id_fallback_witness:
  "uploadForm page_0 = Some \<lparr>form_file = Some ''report.pdf'', submit_disabled = Some False\<rparr>
   \<and> ok 200 \<and> \<not> truthy (p_job_id body_id_only) \<and> p_id body_id_only = Str ''7''
   \<and> renders ''7'' (rows page_0)
   \<and> map_of (jobs (handleUpload (Http 200 (JsonObj body_id_only)) page_0)) ''7''
       = Some \<lparr>id_job = ''7'', filename = Some ''report.pdf'', status = Some ''pending''\<rparr>
   \<and> map_option cell_name (find_row ''7'' (rows (handleUpload (Http 200 (JsonObj body_id_only)) page_0)))
       = Some (Some ''report.pdf'')
   \<and> console (handleUpload (Http 200 (JsonObj body_id_only)) page_0) = []
   \<and> uploadStatus (handleUpload (Http 200 (JsonObj body_id_only)) page_0)
       = ''Upload successful! Job created.''
   \<and> (\<nexists>s'. upload_try None (Http 200 (JsonObj body_id_only)) page_0 = Inl (MissingJobId, s'))
   \<and> \<not> truthy (p_job_id body_no_id) \<and> \<not> truthy (p_id body_no_id)
   \<and> upload_try None (Http 200 (JsonObj body_no_id)) page_0 = Inl (MissingJobId, page_0)
   \<and> \<not> truthy (p_job_id body_quote) \<and> p_id body_quote = Str [CHR ''a'', CHR 0x22, CHR ''b'']
   \<and> map_of (jobs (handleUpload (Http 200 (JsonObj body_quote)) page_0)) [CHR ''a'', CHR 0x22, CHR ''b'']
       = Some \<lparr>id_job = [CHR ''a'', CHR 0x22, CHR ''b''], filename = Some ''report.pdf'',
                status = Some ''pending''\<rparr>
   \<and> console (handleUpload (Http 200 (JsonObj body_quote)) page_0)
       = [ErrorLogged (SyntaxError (job_selector [CHR ''a'', CHR 0x22, CHR ''b'']))]"
proof -
  have h1: "uploadForm page_0 = Some \<lparr>form_file = Some ''report.pdf'', submit_disabled = Some False\<rparr>"
    by code_simp
  have h2: "ok 200" by (simp add: ok_def)
  have h3: "\<not> truthy (p_job_id body_id_only)" "p_id body_id_only = Str ''7''"
    "truthy (p_id body_id_only)"
    by (simp_all add: body_id_only_def)
  have h4: "\<not> truthy (p_job_id body_no_id)" "\<not> truthy (p_id body_no_id)"
    by (simp_all add: body_no_id_def)
  have h5: "\<not> truthy (p_job_id body_quote)" "p_id body_quote = Str [CHR ''a'', CHR 0x22, CHR ''b'']"
    by (simp_all add: body_quote_def)
  have h6: "renders ''7'' (rows page_0)" by code_simp
  have p: "console page_0 = []" by code_simp
  have n: "new_job ''7'' (Some ''report.pdf'') body_id_only
      = \<lparr>id_job = ''7'', filename = Some ''report.pdf'', status = Some ''pending''\<rparr>"
    by (simp add: new_job_def body_id_only_def)
  have nq: "new_job [CHR ''a'', CHR 0x22, CHR ''b''] (Some ''report.pdf'') body_quote
      = \<lparr>id_job = [CHR ''a'', CHR 0x22, CHR ''b''], filename = Some ''report.pdf'',
          status = Some ''pending''\<rparr>"
    by (simp add: new_job_def body_quote_def)
  note t1 = handleUpload_id_fallback [OF h1 h2, where pl = body_id_only and fl = None and s = page_0]
  note t2 = handleUpload_id_fallback [OF h1 h2, where pl = body_no_id and fl = None and s = page_0]
  note t3 = handleUpload_id_fallback [OF h1 h2, where pl = body_quote and fl = None and s = page_0]
  from t1 h3 n have a: "map_of (jobs (handleUpload (Http 200 (JsonObj body_id_only)) page_0)) ''7''
       = Some \<lparr>id_job = ''7'', filename = Some ''report.pdf'', status = Some ''pending''\<rparr>"
    by simp
  from t1 h3 h6 n obtain r where
    r: "find_row ''7'' (rows (handleUpload (Http 200 (JsonObj body_id_only)) page_0)) = Some r"
    and rs: "row_shows \<lparr>id_job = ''7'', filename = Some ''report.pdf'', status = Some ''pending''\<rparr> r"
    and c: "console (handleUpload (Http 200 (JsonObj body_id_only)) page_0) = console page_0"
    and u: "uploadStatus (handleUpload (Http 200 (JsonObj body_id_only)) page_0)
       = ''Upload successful! Job created.''"
    by auto
  from r rs have r': "map_option cell_name
      (find_row ''7'' (rows (handleUpload (Http 200 (JsonObj body_id_only)) page_0)))
       = Some (Some ''report.pdf'')"
    by (simp add: row_shows_def)
  from t1 h3 have b: "\<nexists>s'. upload_try None (Http 200 (JsonObj body_id_only)) page_0 = Inl (MissingJobId, s')"
    by simp
  from t2 h4 have d: "upload_try None (Http 200 (JsonObj body_no_id)) page_0 = Inl (MissingJobId, page_0)"
    by simp
  from t3 h5 nq have e: "map_of (jobs (handleUpload (Http 200 (JsonObj body_quote)) page_0))
       [CHR ''a'', CHR 0x22, CHR ''b'']
       = Some \<lparr>id_job = [CHR ''a'', CHR 0x22, CHR ''b''], filename = Some ''report.pdf'',
                status = Some ''pending''\<rparr>"
    by simp
  have g: "console (handleUpload (Http 200 (JsonObj body_quote)) page_0)
       = [ErrorLogged (SyntaxError (job_selector [CHR ''a'', CHR 0x22, CHR ''b'']))]"
    by code_simp
  from h1 h2 h3 h4 h5 h6 a r' c p u b d e g show ?thesis by simp
qed

end
